theory Spec2Isabelle
  imports Main
begin

section \<open>Native names, types and signatures\<close>

text \<open>
  A qualified C++ identifier as the source writes it: \<^verbatim>\<open>pmp::decimate\<close> is
  \<open>QName [''pmp''] ''decimate''\<close>, \<^verbatim>\<open>&pmp::IOFlags::use_binary\<close> is
  \<open>QName [''pmp'', ''IOFlags''] ''use_binary''\<close>, and the two adapters of the global
  namespace have an empty scope.
\<close>

datatype qname = QName (scope: "string list") (base: string)

abbreviation pmp :: "string \<Rightarrow> qname" where
  "pmp n \<equiv> QName [''pmp''] n"

abbreviation pmp_member :: "string \<Rightarrow> string \<Rightarrow> qname" where
  "pmp_member c n \<equiv> QName [''pmp'', c] n"

abbreviation global :: "string \<Rightarrow> qname" where
  "global n \<equiv> QName [] n"

text \<open>C++ types are kept as the source writes them.\<close>

type_synonym cpp_type = string

record signature =
  sig_ret :: cpp_type
  sig_params :: "cpp_type list"

text \<open>
  The declarations of the wrapped library's headers (\<^verbatim>\<open>pmp/*.h\<close>) are not part of the
  sources. Where a registration deduces a signature from a function pointer, a member
  function pointer or a data member pointer, the deduced signature is read from this
  parameter.
\<close>

record headers =
  function_sig :: "qname \<Rightarrow> signature"
  method_sig :: "qname \<Rightarrow> signature"
  method_const :: "qname \<Rightarrow> bool"
  field_type :: "qname \<Rightarrow> cpp_type"

section \<open>The wrapped mesh, as far as the two lambdas read it\<close>

text \<open>
  \<^verbatim>\<open>pmp::SurfaceMesh\<close> belongs to the wrapped library. The model holds what the two
  lambdas of \<^verbatim>\<open>register_all\<close> read through its const interface: the vertex range
  \<^verbatim>\<open>vertices()\<close>, \<^verbatim>\<open>position(v)\<close>, the face range \<^verbatim>\<open>faces()\<close> and the vertices around
  a face \<^verbatim>\<open>vertices(f)\<close>, each range in its iteration order. \<^verbatim>\<open>n_vertices()\<close> and
  \<^verbatim>\<open>n_faces()\<close> count the elements that the ranges visit. Scalars are only copied,
  so their type is a parameter.
\<close>

datatype Vertex = Vertex (idx: nat)

datatype Face = Face (face_idx: nat)

datatype 's Point = Point (x0: 's) (x1: 's) (x2: 's)

record 's SurfaceMesh =
  vertex_range :: "Vertex list"
  position :: "Vertex \<Rightarrow> 's Point"
  face_range :: "Face list"
  vertices_around :: "Face \<Rightarrow> Vertex list"

definition n_vertices :: "'s SurfaceMesh \<Rightarrow> nat" where
  "n_vertices self = length (vertex_range self)"

definition n_faces :: "'s SurfaceMesh \<Rightarrow> nat" where
  "n_faces self = length (face_range self)"

definition is_triangle_mesh :: "'s SurfaceMesh \<Rightarrow> bool" where
  "is_triangle_mesh self = list_all (\<lambda>f. length (vertices_around self f) = 3) (face_range self)"

subsection \<open>The lambda registered as \<^verbatim>\<open>vertices\<close>\<close>

text \<open>
  \<^verbatim>\<open>for (auto v : self.vertices()) { p = self.position(v); push p[0], p[1], p[2] }\<close>
  The call of \<^verbatim>\<open>reserve\<close> sets the capacity of the vector, not its contents.
\<close>

fun vertices_loop :: "'s SurfaceMesh \<Rightarrow> Vertex list \<Rightarrow> 's list \<Rightarrow> 's list" where
  "vertices_loop self [] pos = pos"
| "vertices_loop self (v # vs) pos =
     (let p = position self v
      in vertices_loop self vs (((pos @ [x0 p]) @ [x1 p]) @ [x2 p]))"

definition vertices_lambda :: "'s SurfaceMesh \<Rightarrow> 's list" where
  "vertices_lambda self = vertices_loop self (vertex_range self) []"

subsection \<open>The lambda registered as \<^verbatim>\<open>indices\<close>\<close>

text \<open>
  \<^verbatim>\<open>for (auto f : self.faces()) for (auto v : self.vertices(f)) push v.idx()\<close>
\<close>

fun indices_inner :: "Vertex list \<Rightarrow> nat list \<Rightarrow> nat list" where
  "indices_inner [] indices = indices"
| "indices_inner (v # vs) indices = indices_inner vs (indices @ [idx v])"

fun indices_loop :: "'s SurfaceMesh \<Rightarrow> Face list \<Rightarrow> nat list \<Rightarrow> nat list" where
  "indices_loop self [] indices = indices"
| "indices_loop self (f # fs) indices =
     indices_loop self fs (indices_inner (vertices_around self f) indices)"

definition indices_lambda :: "'s SurfaceMesh \<Rightarrow> nat list" where
  "indices_lambda self = indices_loop self (face_range self) []"

subsection \<open>Calling a stored lambda\<close>

datatype lambda = lambda_vertices | lambda_indices

datatype 's "value" = ScalarVector "'s list" | IndexVector "nat list"

text \<open>
  Both lambdas take \<^verbatim>\<open>const pmp::SurfaceMesh &self\<close>; a call returns the vector and
  the caller's mesh as the call leaves it.
\<close>

fun call_lambda :: "lambda \<Rightarrow> 's SurfaceMesh \<Rightarrow> 's value \<times> 's SurfaceMesh" where
  "call_lambda lambda_vertices self = (ScalarVector (vertices_lambda self), self)"
| "call_lambda lambda_indices self = (IndexVector (indices_lambda self), self)"

fun value_type :: "'s value \<Rightarrow> cpp_type" where
  "value_type (ScalarVector _) = ''std::vector<pmp::Scalar>''"
| "value_type (IndexVector _) = ''std::vector<pmp::IndexType>''"

subsection \<open>The two adapters\<close>

text \<open>
  \<^verbatim>\<open>copy_mesh\<close> returns \<^verbatim>\<open>pmp::SurfaceMesh(src)\<close>; the copy constructor is the
  library's and is a parameter. The source is taken by const reference and is returned
  beside the copy. \<^verbatim>\<open>load_mesh\<close> calls \<^verbatim>\<open>pmp::read(mesh, filepath)\<close>, which is
  the library's as well; what it throws is passed on.
\<close>

definition copy_mesh ::
  "('s SurfaceMesh \<Rightarrow> 's SurfaceMesh) \<Rightarrow> 's SurfaceMesh \<Rightarrow> 's SurfaceMesh \<times> 's SurfaceMesh" where
  "copy_mesh copy_constructor src = (copy_constructor src, src)"

definition load_mesh ::
  "('s SurfaceMesh \<Rightarrow> string \<Rightarrow> 'e + 's SurfaceMesh) \<Rightarrow> 's SurfaceMesh \<Rightarrow> string \<Rightarrow> 'e + 's SurfaceMesh" where
  "load_mesh pmp_read mesh filepath = pmp_read mesh filepath"

section \<open>Descriptors and the registry\<close>

text \<open>
  What a method or field registration captures: a member pointer such as
  \<^verbatim>\<open>&pmp::SurfaceMesh::add_vertex\<close>, or a closure written at the call site.
\<close>

datatype accessor = MemberPtr qname | Closure lambda

record field_descriptor =
  f_name :: string
  f_owner :: string
  f_type :: cpp_type
  f_accessor :: accessor

record method_descriptor =
  m_name :: string
  m_sig :: signature
  m_const :: bool
  m_accessor :: accessor

record type_descriptor =
  t_name :: string
  t_constructors :: "cpp_type list list"
  t_fields :: "field_descriptor list"
  t_methods :: "method_descriptor list"

record function_descriptor =
  fn_name :: string
  fn_sig :: signature
  fn_target :: qname

text \<open>
  The state of the process that registration can touch: the two singletons
  \<^verbatim>\<open>Registry::instance()\<close> and \<^verbatim>\<open>FunctionRegistry::instance()\<close>, each holding
  its descriptors in registration order, the accessors that have been executed so far,
  and the state of the wrapped library.
\<close>

record 'l process =
  reg_types :: "type_descriptor list"
  reg_functions :: "function_descriptor list"
  executed :: "accessor list"
  library :: 'l

definition fresh_process :: "'l \<Rightarrow> 'l process" where
  "fresh_process l = \<lparr>reg_types = [], reg_functions = [], executed = [], library = l\<rparr>"

datatype error = DuplicateType string | DuplicateFunction string

text \<open>
  A registration either completes, giving the process as it is then, or throws: the
  error, and the process as it is at the throw (the registries are process-wide, so
  what was registered before the throw stays registered).
\<close>

type_synonym 'l outcome = "error \<times> 'l process + 'l process"

text \<open>
  Modelled from the spec: the registration framework (\<^verbatim>\<open>rosetta/rosetta.h\<close>: the
  registries, the builder and the four registration macros) is not among the sources.
  The operations below follow sections 3, 4.1, 4.2 and 7 of the specification: a lookup
  of an absent name is an empty result; registering a type or function name that is
  present is rejected with an error naming it; a builder call stores the exposed name
  and the accessor and returns the same builder; the exposed name of a function is its
  natural name unless an alias is given.
\<close>

definition lookup_type :: "'l process \<Rightarrow> string \<Rightarrow> type_descriptor option" where
  "lookup_type p n = find (\<lambda>d. t_name d = n) (reg_types p)"

definition lookup_function :: "'l process \<Rightarrow> string \<Rightarrow> function_descriptor list" where
  "lookup_function p n = filter (\<lambda>d. fn_name d = n) (reg_functions p)"

definition new_type :: "string \<Rightarrow> type_descriptor" where
  "new_type n = \<lparr>t_name = n, t_constructors = [], t_fields = [], t_methods = []\<rparr>"

definition register_type :: "string \<Rightarrow> 'l process \<Rightarrow> 'l outcome" where
  "register_type n p =
     (if lookup_type p n \<noteq> None then Inl (DuplicateType n, p)
      else Inr (p\<lparr>reg_types := reg_types p @ [new_type n]\<rparr>))"

definition register_function :: "function_descriptor \<Rightarrow> 'l process \<Rightarrow> 'l outcome" where
  "register_function d p =
     (if lookup_function p (fn_name d) \<noteq> [] then Inl (DuplicateFunction (fn_name d), p)
      else Inr (p\<lparr>reg_functions := reg_functions p @ [d]\<rparr>))"

fun natural_name :: "qname \<Rightarrow> string" where
  "natural_name (QName sc b) = b"

subsection \<open>The chained builder calls\<close>

datatype member =
    Constructor "cpp_type list"
  | Field string qname
  | Method string qname
  | LambdaMethodConst cpp_type string lambda
  | LambdaMethod cpp_type string lambda

fun add_member :: "headers \<Rightarrow> member \<Rightarrow> type_descriptor \<Rightarrow> type_descriptor" where
  "add_member h (Constructor ps) d = d\<lparr>t_constructors := t_constructors d @ [ps]\<rparr>"
| "add_member h (Field n a) d =
     d\<lparr>t_fields := t_fields d @
        [\<lparr>f_name = n, f_owner = t_name d, f_type = field_type h a, f_accessor = MemberPtr a\<rparr>]\<rparr>"
| "add_member h (Method n a) d =
     d\<lparr>t_methods := t_methods d @
        [\<lparr>m_name = n, m_sig = method_sig h a, m_const = method_const h a,
          m_accessor = MemberPtr a\<rparr>]\<rparr>"
| "add_member h (LambdaMethodConst rt n l) d =
     d\<lparr>t_methods := t_methods d @
        [\<lparr>m_name = n, m_sig = \<lparr>sig_ret = rt, sig_params = []\<rparr>, m_const = True,
          m_accessor = Closure l\<rparr>]\<rparr>"
| "add_member h (LambdaMethod rt n l) d =
     d\<lparr>t_methods := t_methods d @
        [\<lparr>m_name = n, m_sig = \<lparr>sig_ret = rt, sig_params = []\<rparr>, m_const = False,
          m_accessor = Closure l\<rparr>]\<rparr>"

text \<open>A builder refers to its descriptor inside the registry; a call updates it there.\<close>

definition builder_call :: "headers \<Rightarrow> string \<Rightarrow> member \<Rightarrow> 'l process \<Rightarrow> 'l process" where
  "builder_call h n m p =
     p\<lparr>reg_types := map (\<lambda>d. if t_name d = n then add_member h m d else d) (reg_types p)\<rparr>"

subsection \<open>The registration statements\<close>

datatype decl =
    ROSETTA_REGISTER_CLASS qname "member list"
  | ROSETTA_REGISTER_FUNCTION qname
  | ROSETTA_REGISTER_OVERLOADED_FUNCTION qname signature
  | ROSETTA_REGISTER_OVERLOADED_FUNCTION_AS qname string signature

text \<open>
  The signature that \<^verbatim>\<open>ROSETTA_REGISTER_FUNCTION\<close> deduces: the two adapters are
  defined in the registration header itself, the others in the library's headers.
\<close>

definition deduced_sig :: "headers \<Rightarrow> qname \<Rightarrow> signature" where
  "deduced_sig h q =
     (if q = global ''copy_mesh''
      then \<lparr>sig_ret = ''pmp::SurfaceMesh'', sig_params = [''const pmp::SurfaceMesh &'']\<rparr>
      else if q = global ''load_mesh''
      then \<lparr>sig_ret = ''void'',
            sig_params = [''pmp::SurfaceMesh &'', ''const std::filesystem::path &'']\<rparr>
      else function_sig h q)"

fun exec_decl :: "headers \<Rightarrow> decl \<Rightarrow> 'l process \<Rightarrow> 'l outcome" where
  "exec_decl h (ROSETTA_REGISTER_CLASS c ms) p =
     (case register_type (natural_name c) p of
        Inl e \<Rightarrow> Inl e
      | Inr p' \<Rightarrow> Inr (foldl (\<lambda>q m. builder_call h (natural_name c) m q) p' ms))"
| "exec_decl h (ROSETTA_REGISTER_FUNCTION f) p =
     register_function \<lparr>fn_name = natural_name f, fn_sig = deduced_sig h f, fn_target = f\<rparr> p"
| "exec_decl h (ROSETTA_REGISTER_OVERLOADED_FUNCTION f s) p =
     register_function \<lparr>fn_name = natural_name f, fn_sig = s, fn_target = f\<rparr> p"
| "exec_decl h (ROSETTA_REGISTER_OVERLOADED_FUNCTION_AS f alias s) p =
     register_function \<lparr>fn_name = alias, fn_sig = s, fn_target = f\<rparr> p"

text \<open>Statements run in order; the first error ends the run, as an exception would.\<close>

fun run_decls :: "headers \<Rightarrow> decl list \<Rightarrow> 'l process \<Rightarrow> 'l outcome" where
  "run_decls h [] p = Inr p"
| "run_decls h (d # ds) p =
     (case exec_decl h d p of Inl e \<Rightarrow> Inl e | Inr p' \<Rightarrow> run_decls h ds p')"

section \<open>\<^verbatim>\<open>register_all\<close>\<close>

text \<open>Handle types (lines 64 to 67 of the registration header).\<close>

definition handle_type_decls :: "decl list" where
  "handle_type_decls =
   [ROSETTA_REGISTER_CLASS (pmp ''Vertex'') [Constructor []],
    ROSETTA_REGISTER_CLASS (pmp ''Face'') [Constructor []],
    ROSETTA_REGISTER_CLASS (pmp ''Edge'') [Constructor []],
    ROSETTA_REGISTER_CLASS (pmp ''Halfedge'') [Constructor []]]"

text \<open>IO flags (lines 73 to 80).\<close>

definition io_flags_decls :: "decl list" where
  "io_flags_decls =
   [ROSETTA_REGISTER_CLASS (pmp ''IOFlags'')
      [Constructor [],
       Field ''use_binary'' (pmp_member ''IOFlags'' ''use_binary''),
       Field ''use_vertex_normals'' (pmp_member ''IOFlags'' ''use_vertex_normals''),
       Field ''use_vertex_colors'' (pmp_member ''IOFlags'' ''use_vertex_colors''),
       Field ''use_vertex_texcoords'' (pmp_member ''IOFlags'' ''use_vertex_texcoords''),
       Field ''use_face_normals'' (pmp_member ''IOFlags'' ''use_face_normals''),
       Field ''use_face_colors'' (pmp_member ''IOFlags'' ''use_face_colors'')]]"

text \<open>Core types (lines 87 to 141).\<close>

definition surface_mesh_members :: "member list" where
  "surface_mesh_members =
   [Constructor [],
    Method ''add_vertex'' (pmp_member ''SurfaceMesh'' ''add_vertex''),
    Method ''add_triangle'' (pmp_member ''SurfaceMesh'' ''add_triangle''),
    Method ''add_quad'' (pmp_member ''SurfaceMesh'' ''add_quad''),
    Method ''n_vertices'' (pmp_member ''SurfaceMesh'' ''n_vertices''),
    Method ''n_edges'' (pmp_member ''SurfaceMesh'' ''n_edges''),
    Method ''n_faces'' (pmp_member ''SurfaceMesh'' ''n_faces''),
    Method ''n_halfedges'' (pmp_member ''SurfaceMesh'' ''n_halfedges''),
    Method ''is_empty'' (pmp_member ''SurfaceMesh'' ''is_empty''),
    Method ''is_triangle_mesh'' (pmp_member ''SurfaceMesh'' ''is_triangle_mesh''),
    Method ''is_quad_mesh'' (pmp_member ''SurfaceMesh'' ''is_quad_mesh''),
    Method ''clear'' (pmp_member ''SurfaceMesh'' ''clear''),
    Method ''reserve'' (pmp_member ''SurfaceMesh'' ''reserve''),
    Method ''garbage_collection'' (pmp_member ''SurfaceMesh'' ''garbage_collection''),
    LambdaMethodConst ''std::vector<pmp::Scalar>'' ''vertices'' lambda_vertices,
    LambdaMethod ''std::vector<pmp::IndexType>'' ''indices'' lambda_indices]"

definition core_type_decls :: "decl list" where
  "core_type_decls =
   [ROSETTA_REGISTER_CLASS (pmp ''Point'')
      [Constructor [], Constructor [''float'', ''float'', ''float'']],
    ROSETTA_REGISTER_CLASS (pmp ''BoundingBox'')
      [Constructor [],
       Method ''min'' (pmp_member ''BoundingBox'' ''min''),
       Method ''max'' (pmp_member ''BoundingBox'' ''max''),
       Method ''center'' (pmp_member ''BoundingBox'' ''center''),
       Method ''size'' (pmp_member ''BoundingBox'' ''size''),
       Method ''is_empty'' (pmp_member ''BoundingBox'' ''is_empty'')],
    ROSETTA_REGISTER_CLASS (pmp ''SurfaceMesh'') surface_mesh_members]"

text \<open>Non-overloaded algorithms (lines 148 to 197).\<close>

definition algorithm_decls :: "decl list" where
  "algorithm_decls =
   [ROSETTA_REGISTER_FUNCTION (pmp ''decimate''),
    ROSETTA_REGISTER_FUNCTION (pmp ''explicit_smoothing''),
    ROSETTA_REGISTER_FUNCTION (pmp ''implicit_smoothing''),
    ROSETTA_REGISTER_FUNCTION (pmp ''uniform_remeshing''),
    ROSETTA_REGISTER_FUNCTION (pmp ''adaptive_remeshing''),
    ROSETTA_REGISTER_FUNCTION (pmp ''loop_subdivision''),
    ROSETTA_REGISTER_FUNCTION (pmp ''catmull_clark_subdivision''),
    ROSETTA_REGISTER_FUNCTION (pmp ''quad_tri_subdivision''),
    ROSETTA_REGISTER_FUNCTION (pmp ''vertex_normals''),
    ROSETTA_REGISTER_FUNCTION (pmp ''face_normals''),
    ROSETTA_REGISTER_FUNCTION (pmp ''detect_features''),
    ROSETTA_REGISTER_FUNCTION (pmp ''clear_features''),
    ROSETTA_REGISTER_FUNCTION (pmp ''fill_hole''),
    ROSETTA_REGISTER_FUNCTION (pmp ''curvature''),
    ROSETTA_REGISTER_FUNCTION (pmp ''tetrahedron''),
    ROSETTA_REGISTER_FUNCTION (pmp ''hexahedron''),
    ROSETTA_REGISTER_FUNCTION (pmp ''octahedron''),
    ROSETTA_REGISTER_FUNCTION (pmp ''dodecahedron''),
    ROSETTA_REGISTER_FUNCTION (pmp ''icosahedron''),
    ROSETTA_REGISTER_FUNCTION (pmp ''uv_sphere''),
    ROSETTA_REGISTER_FUNCTION (pmp ''plane''),
    ROSETTA_REGISTER_FUNCTION (pmp ''cone''),
    ROSETTA_REGISTER_FUNCTION (pmp ''cylinder''),
    ROSETTA_REGISTER_FUNCTION (pmp ''torus''),
    ROSETTA_REGISTER_FUNCTION (pmp ''harmonic_parameterization''),
    ROSETTA_REGISTER_FUNCTION (pmp ''lscm_parameterization''),
    ROSETTA_REGISTER_FUNCTION (pmp ''bounds''),
    ROSETTA_REGISTER_FUNCTION (pmp ''surface_area''),
    ROSETTA_REGISTER_FUNCTION (pmp ''volume''),
    ROSETTA_REGISTER_FUNCTION (pmp ''flip_faces'')]"

text \<open>Overloaded algorithms (lines 207 to 213).\<close>

definition overloaded_decls :: "decl list" where
  "overloaded_decls =
   [ROSETTA_REGISTER_OVERLOADED_FUNCTION (pmp ''triangulate'')
      \<lparr>sig_ret = ''void'', sig_params = [''pmp::SurfaceMesh &'']\<rparr>,
    ROSETTA_REGISTER_OVERLOADED_FUNCTION_AS (pmp ''triangulate'') ''triangulate_face''
      \<lparr>sig_ret = ''void'', sig_params = [''pmp::SurfaceMesh &'', ''pmp::Face'']\<rparr>,
    ROSETTA_REGISTER_OVERLOADED_FUNCTION (pmp ''centroid'')
      \<lparr>sig_ret = ''pmp::Point'', sig_params = [''const pmp::SurfaceMesh &'']\<rparr>]"

text \<open>IO functions and the two adapters (lines 220 to 233).\<close>

definition io_decls :: "decl list" where
  "io_decls =
   [ROSETTA_REGISTER_OVERLOADED_FUNCTION (pmp ''read'')
      \<lparr>sig_ret = ''void'',
       sig_params = [''pmp::SurfaceMesh &'', ''const std::filesystem::path &'']\<rparr>,
    ROSETTA_REGISTER_FUNCTION (global ''load_mesh''),
    ROSETTA_REGISTER_FUNCTION (global ''copy_mesh''),
    ROSETTA_REGISTER_OVERLOADED_FUNCTION (pmp ''write'')
      \<lparr>sig_ret = ''void'',
       sig_params = [''const pmp::SurfaceMesh &'', ''const std::filesystem::path &'',
                     ''const pmp::IOFlags &'']\<rparr>]"

definition register_all_decls :: "decl list" where
  "register_all_decls =
     handle_type_decls @ io_flags_decls @ core_type_decls @
     algorithm_decls @ overloaded_decls @ io_decls"

definition register_all :: "headers \<Rightarrow> 'l process \<Rightarrow> 'l outcome" where
  "register_all h p = run_decls h register_all_decls p"

section \<open>The process entry point\<close>

text \<open>
  \<^verbatim>\<open>main\<close> calls \<^verbatim>\<open>pmp_rosetta::register_all()\<close> and returns
  \<^verbatim>\<open>BindingGeneratorLib::run(argc, argv)\<close>. The generator is outside the sources and
  is a parameter: it sees the process as registration left it and returns its exit
  code (with the process as it leaves it). An error of the registration is not caught,
  so the generator is not reached.
\<close>

definition main ::
  "headers \<Rightarrow> (int \<Rightarrow> string list \<Rightarrow> 'l process \<Rightarrow> int \<times> 'l process) \<Rightarrow>
   int \<Rightarrow> string list \<Rightarrow> 'l process \<Rightarrow> error \<times> 'l process + int \<times> 'l process" where
  "main h run argc argv p =
     (case register_all h p of
        Inl e \<Rightarrow> Inl e
      | Inr p' \<Rightarrow> Inr (run argc argv p'))"

section \<open>What a run of registration statements declares\<close>

text \<open>
  The descriptor that a statement declares, read off the statement alone, and the
  exposed names of a list of statements.
\<close>

fun declared_type :: "headers \<Rightarrow> decl \<Rightarrow> type_descriptor option" where
  "declared_type h (ROSETTA_REGISTER_CLASS c ms) =
     Some (foldl (\<lambda>d m. add_member h m d) (new_type (natural_name c)) ms)"
| "declared_type h _ = None"

fun declared_function :: "headers \<Rightarrow> decl \<Rightarrow> function_descriptor option" where
  "declared_function h (ROSETTA_REGISTER_CLASS c ms) = None"
| "declared_function h (ROSETTA_REGISTER_FUNCTION f) =
     Some \<lparr>fn_name = natural_name f, fn_sig = deduced_sig h f, fn_target = f\<rparr>"
| "declared_function h (ROSETTA_REGISTER_OVERLOADED_FUNCTION f s) =
     Some \<lparr>fn_name = natural_name f, fn_sig = s, fn_target = f\<rparr>"
| "declared_function h (ROSETTA_REGISTER_OVERLOADED_FUNCTION_AS f alias s) =
     Some \<lparr>fn_name = alias, fn_sig = s, fn_target = f\<rparr>"

fun type_name_of :: "decl \<Rightarrow> string option" where
  "type_name_of (ROSETTA_REGISTER_CLASS c ms) = Some (natural_name c)"
| "type_name_of _ = None"

fun function_name_of :: "decl \<Rightarrow> string option" where
  "function_name_of (ROSETTA_REGISTER_CLASS c ms) = None"
| "function_name_of (ROSETTA_REGISTER_FUNCTION f) = Some (natural_name f)"
| "function_name_of (ROSETTA_REGISTER_OVERLOADED_FUNCTION f s) = Some (natural_name f)"
| "function_name_of (ROSETTA_REGISTER_OVERLOADED_FUNCTION_AS f alias s) = Some alias"

definition declared_types :: "headers \<Rightarrow> decl list \<Rightarrow> type_descriptor list" where
  "declared_types h ds = List.map_filter (declared_type h) ds"

definition declared_functions :: "headers \<Rightarrow> decl list \<Rightarrow> function_descriptor list" where
  "declared_functions h ds = List.map_filter (declared_function h) ds"

definition type_names :: "decl list \<Rightarrow> string list" where
  "type_names ds = List.map_filter type_name_of ds"

definition function_names :: "decl list \<Rightarrow> string list" where
  "function_names ds = List.map_filter function_name_of ds"

fun is_method :: "member \<Rightarrow> bool" where
  "is_method (Constructor ps) = False"
| "is_method (Field n a) = False"
| "is_method (Method n a) = True"
| "is_method (LambdaMethodConst rt n l) = True"
| "is_method (LambdaMethod rt n l) = True"

definition handle_types :: "qname list" where
  "handle_types = [pmp ''Vertex'', pmp ''Face'', pmp ''Edge'', pmp ''Halfedge'']"

text \<open>
  Modelled from the spec: the generated bindings, which are not among the sources, run
  a stored accessor at call time (section 4.2). A closure runs the lambda; a member
  pointer runs the wrapped library's member function, a parameter here. Either way the
  accessor is recorded as executed.
\<close>

definition invoke_method ::
  "(qname \<Rightarrow> 's SurfaceMesh \<Rightarrow> 'r \<times> 's SurfaceMesh) \<Rightarrow> method_descriptor \<Rightarrow>
   's SurfaceMesh \<Rightarrow> 'l process \<Rightarrow> ('r + 's value) \<times> 's SurfaceMesh \<times> 'l process" where
  "invoke_method native d self p =
     (case m_accessor d of
        Closure l \<Rightarrow>
          (let (v, self') = call_lambda l self
           in (Inr v, self', p\<lparr>executed := executed p @ [Closure l]\<rparr>))
      | MemberPtr q \<Rightarrow>
          (let (r, self') = native q self
           in (Inl r, self', p\<lparr>executed := executed p @ [MemberPtr q]\<rparr>)))"

section \<open>The descriptors of \<^verbatim>\<open>register_all\<close>, written out\<close>

text \<open>
  The descriptors that the statements of \<^verbatim>\<open>register_all\<close> declare, one by one in the
  order of the statements, written out from the registration header: for a type its
  exposed name, its constructors, its fields and its methods; for a function its
  exposed name, its signature and the native function it stands for. A signature
  that the statement does not spell out is the one of the library's headers.
\<close>

definition written_types :: "headers \<Rightarrow> type_descriptor list" where
  "written_types h =
    [\<lparr>t_name = ''Vertex'', t_constructors = [[]],
      t_fields = [],
      t_methods = []\<rparr>,
     \<lparr>t_name = ''Face'', t_constructors = [[]],
      t_fields = [],
      t_methods = []\<rparr>,
     \<lparr>t_name = ''Edge'', t_constructors = [[]],
      t_fields = [],
      t_methods = []\<rparr>,
     \<lparr>t_name = ''Halfedge'', t_constructors = [[]],
      t_fields = [],
      t_methods = []\<rparr>,
     \<lparr>t_name = ''IOFlags'', t_constructors = [[]],
      t_fields = 
        [\<lparr>f_name = ''use_binary'', f_owner = ''IOFlags'',
          f_type = field_type h (pmp_member ''IOFlags'' ''use_binary''),
          f_accessor = MemberPtr (pmp_member ''IOFlags'' ''use_binary'')\<rparr>,
         \<lparr>f_name = ''use_vertex_normals'', f_owner = ''IOFlags'',
          f_type = field_type h (pmp_member ''IOFlags'' ''use_vertex_normals''),
          f_accessor = MemberPtr (pmp_member ''IOFlags'' ''use_vertex_normals'')\<rparr>,
         \<lparr>f_name = ''use_vertex_colors'', f_owner = ''IOFlags'',
          f_type = field_type h (pmp_member ''IOFlags'' ''use_vertex_colors''),
          f_accessor = MemberPtr (pmp_member ''IOFlags'' ''use_vertex_colors'')\<rparr>,
         \<lparr>f_name = ''use_vertex_texcoords'', f_owner = ''IOFlags'',
          f_type = field_type h (pmp_member ''IOFlags'' ''use_vertex_texcoords''),
          f_accessor = MemberPtr (pmp_member ''IOFlags'' ''use_vertex_texcoords'')\<rparr>,
         \<lparr>f_name = ''use_face_normals'', f_owner = ''IOFlags'',
          f_type = field_type h (pmp_member ''IOFlags'' ''use_face_normals''),
          f_accessor = MemberPtr (pmp_member ''IOFlags'' ''use_face_normals'')\<rparr>,
         \<lparr>f_name = ''use_face_colors'', f_owner = ''IOFlags'',
          f_type = field_type h (pmp_member ''IOFlags'' ''use_face_colors''),
          f_accessor = MemberPtr (pmp_member ''IOFlags'' ''use_face_colors'')\<rparr>],
      t_methods = []\<rparr>,
     \<lparr>t_name = ''Point'', t_constructors = [[], [''float'', ''float'', ''float'']],
      t_fields = [],
      t_methods = []\<rparr>,
     \<lparr>t_name = ''BoundingBox'', t_constructors = [[]],
      t_fields = [],
      t_methods = 
        [\<lparr>m_name = ''min'', m_sig = method_sig h (pmp_member ''BoundingBox'' ''min''),
          m_const = method_const h (pmp_member ''BoundingBox'' ''min''),
          m_accessor = MemberPtr (pmp_member ''BoundingBox'' ''min'')\<rparr>,
         \<lparr>m_name = ''max'', m_sig = method_sig h (pmp_member ''BoundingBox'' ''max''),
          m_const = method_const h (pmp_member ''BoundingBox'' ''max''),
          m_accessor = MemberPtr (pmp_member ''BoundingBox'' ''max'')\<rparr>,
         \<lparr>m_name = ''center'', m_sig = method_sig h (pmp_member ''BoundingBox'' ''center''),
          m_const = method_const h (pmp_member ''BoundingBox'' ''center''),
          m_accessor = MemberPtr (pmp_member ''BoundingBox'' ''center'')\<rparr>,
         \<lparr>m_name = ''size'', m_sig = method_sig h (pmp_member ''BoundingBox'' ''size''),
          m_const = method_const h (pmp_member ''BoundingBox'' ''size''),
          m_accessor = MemberPtr (pmp_member ''BoundingBox'' ''size'')\<rparr>,
         \<lparr>m_name = ''is_empty'', m_sig = method_sig h (pmp_member ''BoundingBox'' ''is_empty''),
          m_const = method_const h (pmp_member ''BoundingBox'' ''is_empty''),
          m_accessor = MemberPtr (pmp_member ''BoundingBox'' ''is_empty'')\<rparr>]\<rparr>,
     \<lparr>t_name = ''SurfaceMesh'', t_constructors = [[]],
      t_fields = [],
      t_methods = 
        [\<lparr>m_name = ''add_vertex'', m_sig = method_sig h (pmp_member ''SurfaceMesh'' ''add_vertex''),
          m_const = method_const h (pmp_member ''SurfaceMesh'' ''add_vertex''),
          m_accessor = MemberPtr (pmp_member ''SurfaceMesh'' ''add_vertex'')\<rparr>,
         \<lparr>m_name = ''add_triangle'', m_sig = method_sig h (pmp_member ''SurfaceMesh'' ''add_triangle''),
          m_const = method_const h (pmp_member ''SurfaceMesh'' ''add_triangle''),
          m_accessor = MemberPtr (pmp_member ''SurfaceMesh'' ''add_triangle'')\<rparr>,
         \<lparr>m_name = ''add_quad'', m_sig = method_sig h (pmp_member ''SurfaceMesh'' ''add_quad''),
          m_const = method_const h (pmp_member ''SurfaceMesh'' ''add_quad''),
          m_accessor = MemberPtr (pmp_member ''SurfaceMesh'' ''add_quad'')\<rparr>,
         \<lparr>m_name = ''n_vertices'', m_sig = method_sig h (pmp_member ''SurfaceMesh'' ''n_vertices''),
          m_const = method_const h (pmp_member ''SurfaceMesh'' ''n_vertices''),
          m_accessor = MemberPtr (pmp_member ''SurfaceMesh'' ''n_vertices'')\<rparr>,
         \<lparr>m_name = ''n_edges'', m_sig = method_sig h (pmp_member ''SurfaceMesh'' ''n_edges''),
          m_const = method_const h (pmp_member ''SurfaceMesh'' ''n_edges''),
          m_accessor = MemberPtr (pmp_member ''SurfaceMesh'' ''n_edges'')\<rparr>,
         \<lparr>m_name = ''n_faces'', m_sig = method_sig h (pmp_member ''SurfaceMesh'' ''n_faces''),
          m_const = method_const h (pmp_member ''SurfaceMesh'' ''n_faces''),
          m_accessor = MemberPtr (pmp_member ''SurfaceMesh'' ''n_faces'')\<rparr>,
         \<lparr>m_name = ''n_halfedges'', m_sig = method_sig h (pmp_member ''SurfaceMesh'' ''n_halfedges''),
          m_const = method_const h (pmp_member ''SurfaceMesh'' ''n_halfedges''),
          m_accessor = MemberPtr (pmp_member ''SurfaceMesh'' ''n_halfedges'')\<rparr>,
         \<lparr>m_name = ''is_empty'', m_sig = method_sig h (pmp_member ''SurfaceMesh'' ''is_empty''),
          m_const = method_const h (pmp_member ''SurfaceMesh'' ''is_empty''),
          m_accessor = MemberPtr (pmp_member ''SurfaceMesh'' ''is_empty'')\<rparr>,
         \<lparr>m_name = ''is_triangle_mesh'', m_sig = method_sig h (pmp_member ''SurfaceMesh'' ''is_triangle_mesh''),
          m_const = method_const h (pmp_member ''SurfaceMesh'' ''is_triangle_mesh''),
          m_accessor = MemberPtr (pmp_member ''SurfaceMesh'' ''is_triangle_mesh'')\<rparr>,
         \<lparr>m_name = ''is_quad_mesh'', m_sig = method_sig h (pmp_member ''SurfaceMesh'' ''is_quad_mesh''),
          m_const = method_const h (pmp_member ''SurfaceMesh'' ''is_quad_mesh''),
          m_accessor = MemberPtr (pmp_member ''SurfaceMesh'' ''is_quad_mesh'')\<rparr>,
         \<lparr>m_name = ''clear'', m_sig = method_sig h (pmp_member ''SurfaceMesh'' ''clear''),
          m_const = method_const h (pmp_member ''SurfaceMesh'' ''clear''),
          m_accessor = MemberPtr (pmp_member ''SurfaceMesh'' ''clear'')\<rparr>,
         \<lparr>m_name = ''reserve'', m_sig = method_sig h (pmp_member ''SurfaceMesh'' ''reserve''),
          m_const = method_const h (pmp_member ''SurfaceMesh'' ''reserve''),
          m_accessor = MemberPtr (pmp_member ''SurfaceMesh'' ''reserve'')\<rparr>,
         \<lparr>m_name = ''garbage_collection'', m_sig = method_sig h (pmp_member ''SurfaceMesh'' ''garbage_collection''),
          m_const = method_const h (pmp_member ''SurfaceMesh'' ''garbage_collection''),
          m_accessor = MemberPtr (pmp_member ''SurfaceMesh'' ''garbage_collection'')\<rparr>,
         \<lparr>m_name = ''vertices'',
          m_sig = \<lparr>sig_ret = ''std::vector<pmp::Scalar>'', sig_params = []\<rparr>,
          m_const = True, m_accessor = Closure lambda_vertices\<rparr>,
         \<lparr>m_name = ''indices'',
          m_sig = \<lparr>sig_ret = ''std::vector<pmp::IndexType>'', sig_params = []\<rparr>,
          m_const = False, m_accessor = Closure lambda_indices\<rparr>]\<rparr>]"

definition written_functions :: "headers \<Rightarrow> function_descriptor list" where
  "written_functions h =
    [\<lparr>fn_name = ''decimate'', fn_sig = function_sig h (pmp ''decimate''),
      fn_target = pmp ''decimate''\<rparr>,
     \<lparr>fn_name = ''explicit_smoothing'', fn_sig = function_sig h (pmp ''explicit_smoothing''),
      fn_target = pmp ''explicit_smoothing''\<rparr>,
     \<lparr>fn_name = ''implicit_smoothing'', fn_sig = function_sig h (pmp ''implicit_smoothing''),
      fn_target = pmp ''implicit_smoothing''\<rparr>,
     \<lparr>fn_name = ''uniform_remeshing'', fn_sig = function_sig h (pmp ''uniform_remeshing''),
      fn_target = pmp ''uniform_remeshing''\<rparr>,
     \<lparr>fn_name = ''adaptive_remeshing'', fn_sig = function_sig h (pmp ''adaptive_remeshing''),
      fn_target = pmp ''adaptive_remeshing''\<rparr>,
     \<lparr>fn_name = ''loop_subdivision'', fn_sig = function_sig h (pmp ''loop_subdivision''),
      fn_target = pmp ''loop_subdivision''\<rparr>,
     \<lparr>fn_name = ''catmull_clark_subdivision'', fn_sig = function_sig h (pmp ''catmull_clark_subdivision''),
      fn_target = pmp ''catmull_clark_subdivision''\<rparr>,
     \<lparr>fn_name = ''quad_tri_subdivision'', fn_sig = function_sig h (pmp ''quad_tri_subdivision''),
      fn_target = pmp ''quad_tri_subdivision''\<rparr>,
     \<lparr>fn_name = ''vertex_normals'', fn_sig = function_sig h (pmp ''vertex_normals''),
      fn_target = pmp ''vertex_normals''\<rparr>,
     \<lparr>fn_name = ''face_normals'', fn_sig = function_sig h (pmp ''face_normals''),
      fn_target = pmp ''face_normals''\<rparr>,
     \<lparr>fn_name = ''detect_features'', fn_sig = function_sig h (pmp ''detect_features''),
      fn_target = pmp ''detect_features''\<rparr>,
     \<lparr>fn_name = ''clear_features'', fn_sig = function_sig h (pmp ''clear_features''),
      fn_target = pmp ''clear_features''\<rparr>,
     \<lparr>fn_name = ''fill_hole'', fn_sig = function_sig h (pmp ''fill_hole''),
      fn_target = pmp ''fill_hole''\<rparr>,
     \<lparr>fn_name = ''curvature'', fn_sig = function_sig h (pmp ''curvature''),
      fn_target = pmp ''curvature''\<rparr>,
     \<lparr>fn_name = ''tetrahedron'', fn_sig = function_sig h (pmp ''tetrahedron''),
      fn_target = pmp ''tetrahedron''\<rparr>,
     \<lparr>fn_name = ''hexahedron'', fn_sig = function_sig h (pmp ''hexahedron''),
      fn_target = pmp ''hexahedron''\<rparr>,
     \<lparr>fn_name = ''octahedron'', fn_sig = function_sig h (pmp ''octahedron''),
      fn_target = pmp ''octahedron''\<rparr>,
     \<lparr>fn_name = ''dodecahedron'', fn_sig = function_sig h (pmp ''dodecahedron''),
      fn_target = pmp ''dodecahedron''\<rparr>,
     \<lparr>fn_name = ''icosahedron'', fn_sig = function_sig h (pmp ''icosahedron''),
      fn_target = pmp ''icosahedron''\<rparr>,
     \<lparr>fn_name = ''uv_sphere'', fn_sig = function_sig h (pmp ''uv_sphere''),
      fn_target = pmp ''uv_sphere''\<rparr>,
     \<lparr>fn_name = ''plane'', fn_sig = function_sig h (pmp ''plane''),
      fn_target = pmp ''plane''\<rparr>,
     \<lparr>fn_name = ''cone'', fn_sig = function_sig h (pmp ''cone''),
      fn_target = pmp ''cone''\<rparr>,
     \<lparr>fn_name = ''cylinder'', fn_sig = function_sig h (pmp ''cylinder''),
      fn_target = pmp ''cylinder''\<rparr>,
     \<lparr>fn_name = ''torus'', fn_sig = function_sig h (pmp ''torus''),
      fn_target = pmp ''torus''\<rparr>,
     \<lparr>fn_name = ''harmonic_parameterization'', fn_sig = function_sig h (pmp ''harmonic_parameterization''),
      fn_target = pmp ''harmonic_parameterization''\<rparr>,
     \<lparr>fn_name = ''lscm_parameterization'', fn_sig = function_sig h (pmp ''lscm_parameterization''),
      fn_target = pmp ''lscm_parameterization''\<rparr>,
     \<lparr>fn_name = ''bounds'', fn_sig = function_sig h (pmp ''bounds''),
      fn_target = pmp ''bounds''\<rparr>,
     \<lparr>fn_name = ''surface_area'', fn_sig = function_sig h (pmp ''surface_area''),
      fn_target = pmp ''surface_area''\<rparr>,
     \<lparr>fn_name = ''volume'', fn_sig = function_sig h (pmp ''volume''),
      fn_target = pmp ''volume''\<rparr>,
     \<lparr>fn_name = ''flip_faces'', fn_sig = function_sig h (pmp ''flip_faces''),
      fn_target = pmp ''flip_faces''\<rparr>,
     \<lparr>fn_name = ''triangulate'', fn_sig = \<lparr>sig_ret = ''void'', sig_params = [''pmp::SurfaceMesh &'']\<rparr>,
      fn_target = pmp ''triangulate''\<rparr>,
     \<lparr>fn_name = ''triangulate_face'', fn_sig = \<lparr>sig_ret = ''void'', sig_params = [''pmp::SurfaceMesh &'', ''pmp::Face'']\<rparr>,
      fn_target = pmp ''triangulate''\<rparr>,
     \<lparr>fn_name = ''centroid'', fn_sig = \<lparr>sig_ret = ''pmp::Point'', sig_params = [''const pmp::SurfaceMesh &'']\<rparr>,
      fn_target = pmp ''centroid''\<rparr>,
     \<lparr>fn_name = ''read'', fn_sig = \<lparr>sig_ret = ''void'', sig_params = [''pmp::SurfaceMesh &'', ''const std::filesystem::path &'']\<rparr>,
      fn_target = pmp ''read''\<rparr>,
     \<lparr>fn_name = ''load_mesh'', fn_sig = \<lparr>sig_ret = ''void'', sig_params = [''pmp::SurfaceMesh &'', ''const std::filesystem::path &'']\<rparr>,
      fn_target = global ''load_mesh''\<rparr>,
     \<lparr>fn_name = ''copy_mesh'', fn_sig = \<lparr>sig_ret = ''pmp::SurfaceMesh'', sig_params = [''const pmp::SurfaceMesh &'']\<rparr>,
      fn_target = global ''copy_mesh''\<rparr>,
     \<lparr>fn_name = ''write'', fn_sig = \<lparr>sig_ret = ''void'', sig_params = [''const pmp::SurfaceMesh &'', ''const std::filesystem::path &'', ''const pmp::IOFlags &'']\<rparr>,
      fn_target = pmp ''write''\<rparr>]"

text \<open>Sample inputs for the concrete instances below.\<close>

definition sample_headers :: headers where
  "sample_headers =
     \<lparr>function_sig = (\<lambda>q. \<lparr>sig_ret = ''void'', sig_params = [''pmp::SurfaceMesh &'']\<rparr>),
      method_sig = (\<lambda>q. \<lparr>sig_ret = ''size_t'', sig_params = []\<rparr>),
      method_const = (\<lambda>q. True),
      field_type = (\<lambda>q. ''bool'')\<rparr>"

definition sample_mesh :: "int SurfaceMesh" where
  "sample_mesh =
     \<lparr>vertex_range = [Vertex 0, Vertex 1, Vertex 2, Vertex 3],
      position = (\<lambda>v. Point (int (idx v)) (10 + int (idx v)) (20 + int (idx v))),
      face_range = [Face 0, Face 1],
      vertices_around = (\<lambda>f. if f = Face 0 then [Vertex 0, Vertex 1, Vertex 2]
                               else [Vertex 0, Vertex 2, Vertex 3])\<rparr>"

definition sample_polygon_mesh :: "int SurfaceMesh" where
  "sample_polygon_mesh =
     \<lparr>vertex_range = [Vertex 0, Vertex 1, Vertex 2, Vertex 3, Vertex 4],
      position = (\<lambda>v. Point (int (idx v)) 0 0),
      face_range = [Face 0, Face 1],
      vertices_around = (\<lambda>f. if f = Face 0 then [Vertex 0, Vertex 1, Vertex 2, Vertex 3]
                               else [Vertex 0, Vertex 3, Vertex 4])\<rparr>"

definition sample_generator :: "int \<Rightarrow> string list \<Rightarrow> 'l process \<Rightarrow> int \<times> 'l process" where
  "sample_generator argc argv p =
     (argc + int (length argv) + int (length (reg_types p)) + int (length (reg_functions p)), p)"

section \<open>Properties of the registry operations\<close>

lemmas decls_defs = register_all_decls_def handle_type_decls_def io_flags_decls_def core_type_decls_def
  algorithm_decls_def overloaded_decls_def io_decls_def

lemma add_member_name [simp]: "t_name (add_member h m d) = t_name d"
  by (cases m) simp_all

lemma foldl_add_member_name [simp]:
  "t_name (foldl (\<lambda>d m. add_member h m d) d ms) = t_name d"
  by (induction ms arbitrary: d) simp_all

lemma builder_calls_types:
  "reg_types (foldl (\<lambda>q m. builder_call h n m q) p ms) =
   map (\<lambda>d. if t_name d = n then foldl (\<lambda>d m. add_member h m d) d ms else d) (reg_types p)"
proof (induction ms arbitrary: p)
  case Nil
  show ?case by (simp add: map_idI)
next
  case (Cons m ms)
  have "reg_types (builder_call h n m p) =
        map (\<lambda>d. if t_name d = n then add_member h m d else d) (reg_types p)"
    by (simp add: builder_call_def)
  then show ?case by (simp add: Cons.IH comp_def)
qed

lemma builder_calls_frame:
  "reg_functions (foldl (\<lambda>q m. builder_call h n m q) p ms) = reg_functions p \<and>
   executed (foldl (\<lambda>q m. builder_call h n m q) p ms) = executed p \<and>
   library (foldl (\<lambda>q m. builder_call h n m q) p ms) = library p"
  by (induction ms arbitrary: p) (simp_all add: builder_call_def)

lemma builder_calls_commute:
  "foldl (\<lambda>q m. builder_call h n m q) (p\<lparr>executed := ex, library := l\<rparr>) ms =
   (foldl (\<lambda>q m. builder_call h n m q) p ms)\<lparr>executed := ex, library := l\<rparr>"
proof (induction ms arbitrary: p)
  case Nil
  show ?case by simp
next
  case (Cons m ms)
  have "builder_call h n m (p\<lparr>executed := ex, library := l\<rparr>) =
        (builder_call h n m p)\<lparr>executed := ex, library := l\<rparr>"
    by (simp add: builder_call_def)
  then show ?case by (simp add: Cons.IH)
qed

lemma lookup_type_None_iff: "lookup_type p n = None \<longleftrightarrow> n \<notin> t_name ` set (reg_types p)"
  by (auto simp: lookup_type_def find_None_iff)

lemma lookup_function_Nil_iff: "lookup_function p n = [] \<longleftrightarrow> n \<notin> fn_name ` set (reg_functions p)"
  by (auto simp: lookup_function_def filter_empty_conv)

lemma find_distinct:
  "distinct (map f xs) \<Longrightarrow> x \<in> set xs \<Longrightarrow> find (\<lambda>y. f y = f x) xs = Some x"
  by (induction xs) (auto simp: image_iff)

lemma filter_absent: "n \<notin> f ` set xs \<Longrightarrow> filter (\<lambda>y. f y = n) xs = []"
  by (induction xs) auto

lemma filter_distinct:
  "distinct (map f xs) \<Longrightarrow> x \<in> set xs \<Longrightarrow> filter (\<lambda>y. f y = f x) xs = [x]"
proof (induction xs)
  case (Cons a xs)
  show ?case
  proof (cases "a = x")
    case True
    with Cons.prems have "f x \<notin> f ` set xs" by simp
    then have "filter (\<lambda>y. f y = f x) xs = []"
      by (rule filter_absent)
    with True show ?thesis by simp
  next
    case False
    with Cons show ?thesis by (auto simp: image_iff)
  qed
qed simp

lemma find_append_absent:
  "n \<notin> f ` set xs \<Longrightarrow> find (\<lambda>y. f y = n) (xs @ ys) = find (\<lambda>y. f y = n) ys"
  by (induction xs) auto

lemma exec_decl_Inr:
  assumes "exec_decl h d p = Inr p'"
  shows "reg_types p' = reg_types p @ (case declared_type h d of None \<Rightarrow> [] | Some t \<Rightarrow> [t])"
    and "reg_functions p' = reg_functions p @ (case declared_function h d of None \<Rightarrow> [] | Some f \<Rightarrow> [f])"
    and "executed p' = executed p" and "library p' = library p"
    and "\<forall>n. type_name_of d = Some n \<longrightarrow> n \<notin> t_name ` set (reg_types p)"
    and "\<forall>n. function_name_of d = Some n \<longrightarrow> n \<notin> fn_name ` set (reg_functions p)"
proof -
  show "reg_types p' = reg_types p @ (case declared_type h d of None \<Rightarrow> [] | Some t \<Rightarrow> [t])"
  proof (cases d)
    case (ROSETTA_REGISTER_CLASS c ms)
    with assms have nn: "natural_name c \<notin> t_name ` set (reg_types p)"
      and p': "p' = foldl (\<lambda>q m. builder_call h (natural_name c) m q)
                 (p\<lparr>reg_types := reg_types p @ [new_type (natural_name c)]\<rparr>) ms"
      by (auto simp: register_type_def lookup_type_None_iff split: if_splits)
    have "map (\<lambda>d. if t_name d = natural_name c then foldl (\<lambda>d m. add_member h m d) d ms else d) (reg_types p) = reg_types p"
      using nn by (intro map_idI) force
    then show ?thesis
      using ROSETTA_REGISTER_CLASS by (simp add: p' builder_calls_types new_type_def)
  qed (use assms in \<open>auto simp: register_function_def split: if_splits\<close>)
  show "reg_functions p' = reg_functions p @ (case declared_function h d of None \<Rightarrow> [] | Some f \<Rightarrow> [f])"
    using assms by (cases d) (auto simp: register_function_def register_type_def builder_calls_frame split: if_splits)
  show "executed p' = executed p"
    using assms by (cases d) (auto simp: register_function_def register_type_def builder_calls_frame split: if_splits)
  show "library p' = library p"
    using assms by (cases d) (auto simp: register_function_def register_type_def builder_calls_frame split: if_splits)
  show "\<forall>n. type_name_of d = Some n \<longrightarrow> n \<notin> t_name ` set (reg_types p)"
    using assms by (cases d) (auto simp: register_type_def lookup_type_None_iff split: if_splits)
  show "\<forall>n. function_name_of d = Some n \<longrightarrow> n \<notin> fn_name ` set (reg_functions p)"
    using assms by (cases d) (auto simp: register_function_def lookup_function_Nil_iff split: if_splits)
qed

lemma exec_decl_succeeds:
  assumes "\<forall>n. type_name_of d = Some n \<longrightarrow> n \<notin> t_name ` set (reg_types p)"
    and "\<forall>n. function_name_of d = Some n \<longrightarrow> n \<notin> fn_name ` set (reg_functions p)"
  shows "\<exists>q. exec_decl h d p = Inr q"
  using assms
  by (cases d)
     (simp_all add: register_type_def register_function_def lookup_type_None_iff
        lookup_function_Nil_iff)

lemma register_function_frame:
  "register_function fd (p\<lparr>executed := ex, library := l\<rparr>) =
   map_sum (map_prod id (\<lambda>q. q\<lparr>executed := ex, library := l\<rparr>))
     (\<lambda>q. q\<lparr>executed := ex, library := l\<rparr>) (register_function fd p)"
  by (simp add: register_function_def lookup_function_def)

lemma exec_decl_frame:
  "exec_decl h d (p\<lparr>executed := ex, library := l\<rparr>) =
   map_sum (map_prod id (\<lambda>q. q\<lparr>executed := ex, library := l\<rparr>))
     (\<lambda>q. q\<lparr>executed := ex, library := l\<rparr>) (exec_decl h d p)"
proof (cases d)
  case (ROSETTA_REGISTER_CLASS c ms)
  have "register_type (natural_name c) (p\<lparr>executed := ex, library := l\<rparr>) =
        map_sum (map_prod id (\<lambda>q. q\<lparr>executed := ex, library := l\<rparr>))
     (\<lambda>q. q\<lparr>executed := ex, library := l\<rparr>) (register_type (natural_name c) p)"
    by (simp add: register_type_def lookup_type_def)
  then show ?thesis
    using ROSETTA_REGISTER_CLASS
    by (cases "register_type (natural_name c) p") (simp_all add: builder_calls_commute)
qed (simp_all add: register_function_frame)

lemma invoke_method_recorded:
  "executed (snd (snd (invoke_method native d self p))) = executed p @ [m_accessor d]"
  by (cases "m_accessor d") (simp_all add: invoke_method_def split: prod.splits)

section \<open>Runs of registration statements\<close>

lemma declared_lists_Nil [simp]:
  "declared_types h [] = []" "declared_functions h [] = []"
  "type_names [] = []" "function_names [] = []"
  by (simp_all add: declared_types_def declared_functions_def type_names_def
      function_names_def List.map_filter_simps)

lemma declared_lists_Cons:
  "declared_types h (d # ds) =
     (case declared_type h d of None \<Rightarrow> [] | Some t \<Rightarrow> [t]) @ declared_types h ds"
  "declared_functions h (d # ds) =
     (case declared_function h d of None \<Rightarrow> [] | Some f \<Rightarrow> [f]) @ declared_functions h ds"
  "type_names (d # ds) = (case type_name_of d of None \<Rightarrow> [] | Some n \<Rightarrow> [n]) @ type_names ds"
  "function_names (d # ds) =
     (case function_name_of d of None \<Rightarrow> [] | Some n \<Rightarrow> [n]) @ function_names ds"
  by (simp_all add: declared_types_def declared_functions_def type_names_def
      function_names_def List.map_filter_simps split: option.splits)

lemma declared_types_names: "map t_name (declared_types h ds) = type_names ds"
proof (induction ds)
  case (Cons d ds)
  then show ?case
    by (cases d) (simp_all add: declared_lists_Cons new_type_def)
qed simp

lemma declared_functions_names: "map fn_name (declared_functions h ds) = function_names ds"
proof (induction ds)
  case (Cons d ds)
  then show ?case
    by (cases d) (simp_all add: declared_lists_Cons)
qed simp

lemma declared_types_member:
  "d \<in> set ds \<Longrightarrow> declared_type h d = Some td \<Longrightarrow> td \<in> set (declared_types h ds)"
  by (induction ds) (auto simp: declared_lists_Cons split: option.splits)

lemma declared_functions_member:
  "d \<in> set ds \<Longrightarrow> declared_function h d = Some fd \<Longrightarrow> fd \<in> set (declared_functions h ds)"
  by (induction ds) (auto simp: declared_lists_Cons split: option.splits)

lemma run_decls_Inr:
  assumes "run_decls h ds p = Inr p'"
  shows "reg_types p' = reg_types p @ declared_types h ds"
    and "reg_functions p' = reg_functions p @ declared_functions h ds"
    and "executed p' = executed p" and "library p' = library p"
  using assms
proof (induction ds arbitrary: p)
  case Nil
  { case 1 then show ?case by simp }
  { case 2 then show ?case by simp }
  { case 3 then show ?case by simp }
  { case 4 then show ?case by simp }
next
  case (Cons d ds)
  { case 1
    then obtain q where q: "exec_decl h d p = Inr q" "run_decls h ds q = Inr p'"
      by (auto split: sum.splits)
    show ?case using Cons.IH(1) [OF q(2)] exec_decl_Inr(1) [OF q(1)]
      by (simp add: declared_lists_Cons) }
  { case 2
    then obtain q where q: "exec_decl h d p = Inr q" "run_decls h ds q = Inr p'"
      by (auto split: sum.splits)
    show ?case using Cons.IH(2) [OF q(2)] exec_decl_Inr(2) [OF q(1)]
      by (simp add: declared_lists_Cons) }
  { case 3
    then obtain q where q: "exec_decl h d p = Inr q" "run_decls h ds q = Inr p'"
      by (auto split: sum.splits)
    show ?case using Cons.IH(3) [OF q(2)] exec_decl_Inr(3) [OF q(1)] by simp }
  { case 4
    then obtain q where q: "exec_decl h d p = Inr q" "run_decls h ds q = Inr p'"
      by (auto split: sum.splits)
    show ?case using Cons.IH(4) [OF q(2)] exec_decl_Inr(4) [OF q(1)] by simp }
qed

lemma run_decls_Inr_names:
  assumes "run_decls h ds p = Inr p'"
  shows "distinct (type_names ds) \<and> set (type_names ds) \<inter> t_name ` set (reg_types p) = {} \<and>
         distinct (function_names ds) \<and>
         set (function_names ds) \<inter> fn_name ` set (reg_functions p) = {}"
  using assms
proof (induction ds arbitrary: p)
  case Nil
  show ?case by simp
next
  case (Cons d ds)
  then obtain q where q: "exec_decl h d p = Inr q" "run_decls h ds q = Inr p'"
    by (auto split: sum.splits)
  note e = exec_decl_Inr [OF q(1)]
  note ih = Cons.IH [OF q(2)]
  have tn: "t_name ` set (reg_types q) =
      t_name ` set (reg_types p) \<union> (case type_name_of d of None \<Rightarrow> {} | Some n \<Rightarrow> {n})"
    by (cases d) (auto simp: e(1) new_type_def)
  have fn: "fn_name ` set (reg_functions q) =
      fn_name ` set (reg_functions p) \<union> (case function_name_of d of None \<Rightarrow> {} | Some n \<Rightarrow> {n})"
    by (cases d) (auto simp: e(2))
  have "distinct (type_names (d # ds)) \<and>
        set (type_names (d # ds)) \<inter> t_name ` set (reg_types p) = {}"
    using ih e(5) unfolding tn by (auto simp: declared_lists_Cons split: option.splits)
  moreover have "distinct (function_names (d # ds)) \<and>
        set (function_names (d # ds)) \<inter> fn_name ` set (reg_functions p) = {}"
    using ih e(6) unfolding fn by (auto simp: declared_lists_Cons split: option.splits)
  ultimately show ?case by blast
qed

lemma run_decls_succeeds:
  assumes "distinct (type_names ds)" "set (type_names ds) \<inter> t_name ` set (reg_types p) = {}"
    and "distinct (function_names ds)"
    and "set (function_names ds) \<inter> fn_name ` set (reg_functions p) = {}"
  shows "\<exists>p'. run_decls h ds p = Inr p'"
  using assms
proof (induction ds arbitrary: p)
  case Nil
  show ?case by simp
next
  case (Cons d ds)
  have "\<exists>q. exec_decl h d p = Inr q"
    using Cons.prems by (intro exec_decl_succeeds) (auto simp: declared_lists_Cons)
  then obtain q where q: "exec_decl h d p = Inr q" ..
  note e = exec_decl_Inr [OF q]
  have tn: "t_name ` set (reg_types q) =
      t_name ` set (reg_types p) \<union> (case type_name_of d of None \<Rightarrow> {} | Some n \<Rightarrow> {n})"
    by (cases d) (auto simp: e(1) new_type_def)
  have fn: "fn_name ` set (reg_functions q) =
      fn_name ` set (reg_functions p) \<union> (case function_name_of d of None \<Rightarrow> {} | Some n \<Rightarrow> {n})"
    by (cases d) (auto simp: e(2))
  have "\<exists>p'. run_decls h ds q = Inr p'"
  proof (rule Cons.IH)
    show "distinct (type_names ds)" "distinct (function_names ds)"
      using Cons.prems by (auto simp: declared_lists_Cons)
    show "set (type_names ds) \<inter> t_name ` set (reg_types q) = {}"
      using Cons.prems(1,2) unfolding tn by (auto simp: declared_lists_Cons split: option.splits)
    show "set (function_names ds) \<inter> fn_name ` set (reg_functions q) = {}"
      using Cons.prems(3,4) unfolding fn by (auto simp: declared_lists_Cons split: option.splits)
  qed
  then show ?case by (simp add: q)
qed

lemma run_decls_lookup_type:
  assumes "run_decls h ds p = Inr p'" "d \<in> set ds" "declared_type h d = Some td"
  shows "lookup_type p' (t_name td) = Some td"
proof -
  note n = run_decls_Inr_names [OF assms(1)]
  have mem: "td \<in> set (declared_types h ds)"
    using assms(2,3) by (rule declared_types_member)
  then have "t_name td \<in> set (map t_name (declared_types h ds))"
    by simp
  then have "t_name td \<in> set (type_names ds)"
    by (simp only: declared_types_names)
  with n have "t_name td \<notin> t_name ` set (reg_types p)" by blast
  moreover have "distinct (map t_name (declared_types h ds))"
    using n by (simp add: declared_types_names)
  ultimately show ?thesis
    using mem
    by (simp add: lookup_type_def run_decls_Inr(1) [OF assms(1)] find_append_absent find_distinct)
qed

lemma run_decls_lookup_function:
  assumes "run_decls h ds p = Inr p'" "d \<in> set ds" "declared_function h d = Some fd"
  shows "lookup_function p' (fn_name fd) = [fd]"
proof -
  note n = run_decls_Inr_names [OF assms(1)]
  have mem: "fd \<in> set (declared_functions h ds)"
    using assms(2,3) by (rule declared_functions_member)
  then have "fn_name fd \<in> set (map fn_name (declared_functions h ds))"
    by simp
  then have "fn_name fd \<in> set (function_names ds)"
    by (simp only: declared_functions_names)
  with n have "fn_name fd \<notin> fn_name ` set (reg_functions p)" by blast
  moreover have "distinct (map fn_name (declared_functions h ds))"
    using n by (simp add: declared_functions_names)
  ultimately show ?thesis
    using mem
    by (simp add: lookup_function_def run_decls_Inr(2) [OF assms(1)] filter_absent
        filter_distinct)
qed

lemma run_decls_frame:
  "run_decls h ds (p\<lparr>executed := ex, library := l\<rparr>) =
   map_sum (map_prod id (\<lambda>q. q\<lparr>executed := ex, library := l\<rparr>))
     (\<lambda>q. q\<lparr>executed := ex, library := l\<rparr>) (run_decls h ds p)"
proof (induction ds arbitrary: p)
  case Nil
  show ?case by simp
next
  case (Cons d ds)
  show ?case
    by (cases "exec_decl h d p") (simp_all add: exec_decl_frame Cons.IH id_def)
qed

section \<open>The statements of \<^verbatim>\<open>register_all\<close>\<close>

lemma register_all_type_names:
  "type_names register_all_decls =
     [''Vertex'', ''Face'', ''Edge'', ''Halfedge'', ''IOFlags'', ''Point'', ''BoundingBox'',
      ''SurfaceMesh'']"
  by (simp add: decls_defs type_names_def List.map_filter_simps)

lemma register_all_function_names:
  "function_names register_all_decls =
     [''decimate'', ''explicit_smoothing'', ''implicit_smoothing'', ''uniform_remeshing'',
      ''adaptive_remeshing'', ''loop_subdivision'', ''catmull_clark_subdivision'',
      ''quad_tri_subdivision'', ''vertex_normals'', ''face_normals'', ''detect_features'',
      ''clear_features'', ''fill_hole'', ''curvature'', ''tetrahedron'', ''hexahedron'',
      ''octahedron'', ''dodecahedron'', ''icosahedron'', ''uv_sphere'', ''plane'', ''cone'',
      ''cylinder'', ''torus'', ''harmonic_parameterization'', ''lscm_parameterization'',
      ''bounds'', ''surface_area'', ''volume'', ''flip_faces'', ''triangulate'',
      ''triangulate_face'', ''centroid'', ''read'', ''load_mesh'', ''copy_mesh'', ''write'']"
  by (simp add: decls_defs function_names_def List.map_filter_simps)

lemma register_all_names_distinct:
  "distinct (type_names register_all_decls)" "distinct (function_names register_all_decls)"
  unfolding register_all_type_names register_all_function_names by simp_all

lemma register_all_succeeds:
  assumes "reg_types p = []" "reg_functions p = []"
  shows "\<exists>p'. register_all h p = Inr p'"
  unfolding register_all_def
  by (rule run_decls_succeeds) (simp_all add: register_all_names_distinct assms)

lemma register_all_fresh:
  "\<exists>p'. register_all h (fresh_process l) = Inr p'"
  unfolding register_all_def
  by (rule run_decls_succeeds) (simp_all add: register_all_names_distinct fresh_process_def)

lemma register_all_fresh_functions:
  assumes "register_all h (fresh_process l) = Inr p'"
  shows "reg_functions p' = declared_functions h register_all_decls"
  using run_decls_Inr(2) [of h register_all_decls "fresh_process l" p'] assms
  by (simp add: register_all_def fresh_process_def)

lemma register_all_decls_first:
  "\<exists>rest. register_all_decls = ROSETTA_REGISTER_CLASS (pmp ''Vertex'') [Constructor []] # rest"
  by (simp add: register_all_decls_def handle_type_decls_def)

lemma methods_after_handles:
  assumes "j < length register_all_decls"
    and "register_all_decls ! j = ROSETTA_REGISTER_CLASS c ms"
    and "m \<in> set ms" and "is_method m"
  shows "4 \<le> j"
proof (rule ccontr)
  assume "\<not> 4 \<le> j"
  then have j: "j = 0 \<or> j = 1 \<or> j = 2 \<or> j = 3" by arith
  have "register_all_decls ! j = handle_type_decls ! j"
    using j by (auto simp: register_all_decls_def handle_type_decls_def nth_append)
  with assms(2) j have "ms = [Constructor []]"
    by (auto simp: handle_type_decls_def)
  with assms(3,4) show False by simp
qed

lemma triangulate_targets:
  "filter (\<lambda>d. fn_target d = pmp ''triangulate'') (declared_functions h register_all_decls) =
     [\<lparr>fn_name = ''triangulate'',
       fn_sig = \<lparr>sig_ret = ''void'', sig_params = [''pmp::SurfaceMesh &'']\<rparr>,
       fn_target = pmp ''triangulate''\<rparr>,
      \<lparr>fn_name = ''triangulate_face'',
       fn_sig = \<lparr>sig_ret = ''void'', sig_params = [''pmp::SurfaceMesh &'', ''pmp::Face'']\<rparr>,
       fn_target = pmp ''triangulate''\<rparr>]"
  by (simp add: decls_defs declared_functions_def List.map_filter_simps)

lemma adapter_targets:
  "map fn_target (filter (\<lambda>d. scope (fn_target d) \<noteq> [''pmp''])
      (declared_functions h register_all_decls)) =
     [global ''load_mesh'', global ''copy_mesh'']"
  by (simp add: decls_defs declared_functions_def List.map_filter_simps)

lemma run_decls_append:
  "run_decls h (ds @ es) p =
     (case run_decls h ds p of Inl e \<Rightarrow> Inl e | Inr q \<Rightarrow> run_decls h es q)"
  by (induction ds arbitrary: p) (simp_all split: sum.splits)

lemma run_decls_split:
  assumes "run_decls h ds p = Inr p'"
  shows "\<exists>q. run_decls h (take j ds) p = Inr q \<and> run_decls h (drop j ds) q = Inr p'"
proof -
  from assms have "run_decls h (take j ds @ drop j ds) p = Inr p'" by simp
  then show ?thesis
    unfolding run_decls_append by (cases "run_decls h (take j ds) p") simp_all
qed

lemma handle_decl_member:
  assumes "t \<in> set handle_types"
  shows "ROSETTA_REGISTER_CLASS t [Constructor []] \<in> set handle_type_decls"
  using assms by (auto simp: handle_types_def handle_type_decls_def)

lemma handle_decls_in_prefix:
  assumes "4 \<le> j"
  shows "set handle_type_decls \<subseteq> set (take j register_all_decls)"
proof -
  have "length handle_type_decls = 4" by (simp add: handle_type_decls_def)
  with assms have "take j register_all_decls =
      handle_type_decls @ take (j - 4)
        (io_flags_decls @ core_type_decls @ algorithm_decls @ overloaded_decls @ io_decls)"
    by (simp add: register_all_decls_def)
  then show ?thesis by simp
qed

lemma declared_types_written: "declared_types h register_all_decls = written_types h"
  by (simp add: decls_defs surface_mesh_members_def declared_types_def List.map_filter_simps
      new_type_def written_types_def)

lemma declared_functions_written: "declared_functions h register_all_decls = written_functions h"
  by (simp add: decls_defs declared_functions_def List.map_filter_simps deduced_sig_def
      written_functions_def)

lemma run_decls_lookup_declared_type:
  assumes "run_decls h ds p = Inr p'" "td \<in> set (declared_types h ds)"
  shows "lookup_type p' (t_name td) = Some td"
proof -
  note n = run_decls_Inr_names [OF assms(1)]
  from assms(2) have "t_name td \<in> set (map t_name (declared_types h ds))"
    by simp
  then have "t_name td \<in> set (type_names ds)"
    by (simp only: declared_types_names)
  with n have "t_name td \<notin> t_name ` set (reg_types p)" by blast
  moreover have "distinct (map t_name (declared_types h ds))"
    using n by (simp add: declared_types_names)
  ultimately show ?thesis
    using assms(2)
    by (simp add: lookup_type_def run_decls_Inr(1) [OF assms(1)] find_append_absent find_distinct)
qed

lemma run_decls_lookup_declared_function:
  assumes "run_decls h ds p = Inr p'" "fd \<in> set (declared_functions h ds)"
  shows "lookup_function p' (fn_name fd) = [fd]"
proof -
  note n = run_decls_Inr_names [OF assms(1)]
  from assms(2) have "fn_name fd \<in> set (map fn_name (declared_functions h ds))"
    by simp
  then have "fn_name fd \<in> set (function_names ds)"
    by (simp only: declared_functions_names)
  with n have "fn_name fd \<notin> fn_name ` set (reg_functions p)" by blast
  moreover have "distinct (map fn_name (declared_functions h ds))"
    using n by (simp add: declared_functions_names)
  ultimately show ?thesis
    using assms(2)
    by (simp add: lookup_function_def run_decls_Inr(2) [OF assms(1)] filter_absent
        filter_distinct)
qed

section \<open>Properties of the two lambdas\<close>

lemma vertices_loop_eq:
  "vertices_loop self vs pos =
   pos @ concat (map (\<lambda>v. [x0 (position self v), x1 (position self v), x2 (position self v)]) vs)"
  by (induction vs arbitrary: pos) (simp_all add: Let_def)

lemma indices_inner_eq: "indices_inner vs acc = acc @ map idx vs"
  by (induction vs arbitrary: acc) simp_all

lemma indices_loop_eq:
  "indices_loop self fs acc = acc @ concat (map (\<lambda>f. map idx (vertices_around self f)) fs)"
  by (induction fs arbitrary: acc) (simp_all add: indices_inner_eq)

lemma length_concat_const:
  "(\<And>x. x \<in> set xs \<Longrightarrow> length (f x) = k) \<Longrightarrow> length (concat (map f xs)) = k * length xs"
  by (induction xs) simp_all

section \<open>The claims\<close>

text \<open>
  C1. A second run of \<^verbatim>\<open>register_all\<close> in the same process is rejected: whenever a run
  of \<^verbatim>\<open>register_all\<close> has completed, from any state of the process, running it again
  on the resulting state fails with the duplicate-registration error for its first
  name, \<^verbatim>\<open>Vertex\<close>, at its first statement, and leaves the process exactly as the
  first run left it: the registry is neither doubled nor overwritten.
  \<^verbatim>\<open>register_all\<close> has no guard of its own; the rejection is the registry's duplicate
  check.
\<close>

theorem register_all_twice_rejected:
  assumes "register_all h p = Inr p'"
  shows "register_all h p' = Inl (DuplicateType ''Vertex'', p')"
proof -
  from assms have "map t_name (reg_types p') = map t_name (reg_types p) @ type_names register_all_decls"
    unfolding register_all_def by (simp add: run_decls_Inr(1) declared_types_names)
  then have "''Vertex'' \<in> set (map t_name (reg_types p'))"
    by (simp add: register_all_type_names)
  then have "lookup_type p' ''Vertex'' \<noteq> None"
    by (simp add: lookup_type_None_iff)
  then have "register_type ''Vertex'' p' = Inl (DuplicateType ''Vertex'', p')"
    by (simp add: register_type_def)
  then have "exec_decl h (ROSETTA_REGISTER_CLASS (pmp ''Vertex'') [Constructor []]) p' =
      Inl (DuplicateType ''Vertex'', p')"
    by simp
  then have "run_decls h (ROSETTA_REGISTER_CLASS (pmp ''Vertex'') [Constructor []] # rest) p' =
      Inl (DuplicateType ''Vertex'', p')" for rest
    by simp
  then show ?thesis
    using register_all_decls_first unfolding register_all_def by metis
qed

theorem register_all_twice_rejected_witness:
  "\<exists>p'. register_all sample_headers (fresh_process ()) = Inr p' \<and>
        register_all sample_headers p' = Inl (DuplicateType ''Vertex'', p')"
proof -
  obtain p' where p': "register_all sample_headers (fresh_process ()) = Inr p'"
    using register_all_fresh [of sample_headers "()"] by blast
  show ?thesis
    using p' register_all_twice_rejected [OF p'] by blast
qed

text \<open>
  C2. \<^verbatim>\<open>main\<close> runs \<^verbatim>\<open>register_all\<close> first and the generator second: when the
  registration completes, the result of \<^verbatim>\<open>main\<close> is the result of the generator, called
  with \<^verbatim>\<open>argc\<close> and \<^verbatim>\<open>argv\<close> as \<^verbatim>\<open>main\<close> received them, on the process as the
  registration left it; when the registration fails, the generator is not reached.
  So whenever \<^verbatim>\<open>main\<close> returns an exit code, it is the value that the generator
  returned, and the generator saw every name of \<^verbatim>\<open>register_all\<close> registered.
\<close>

theorem main_registers_then_runs:
  "(\<forall>p'. register_all h p = Inr p' \<longrightarrow> main h run argc argv p = Inr (run argc argv p')) \<and>
   (\<forall>e. register_all h p = Inl e \<longrightarrow> main h run argc argv p = Inl e) \<and>
   (\<forall>code pf. main h run argc argv p = Inr (code, pf) \<longrightarrow>
      (\<exists>p'. register_all h p = Inr p' \<and> run argc argv p' = (code, pf) \<and>
         map t_name (reg_types p') = map t_name (reg_types p) @ type_names register_all_decls \<and>
         map fn_name (reg_functions p') =
           map fn_name (reg_functions p) @ function_names register_all_decls))"
proof -
  have names: "map t_name (reg_types p') = map t_name (reg_types p) @ type_names register_all_decls \<and>
         map fn_name (reg_functions p') =
           map fn_name (reg_functions p) @ function_names register_all_decls"
    if "register_all h p = Inr p'" for p'
    using that unfolding register_all_def
    by (simp add: run_decls_Inr(1,2) declared_types_names declared_functions_names)
  have a: "main h run argc argv p = Inr (run argc argv p')" if "register_all h p = Inr p'" for p'
    using that by (simp add: main_def)
  have b: "main h run argc argv p = Inl e" if "register_all h p = Inl e" for e
    using that by (simp add: main_def)
  have c: "\<exists>p'. register_all h p = Inr p' \<and> run argc argv p' = (code, pf) \<and>
         map t_name (reg_types p') = map t_name (reg_types p) @ type_names register_all_decls \<and>
         map fn_name (reg_functions p') =
           map fn_name (reg_functions p) @ function_names register_all_decls"
    if m: "main h run argc argv p = Inr (code, pf)" for code pf
  proof (cases "register_all h p")
    case (Inl e)
    with m show ?thesis by (simp add: main_def)
  next
    case (Inr p')
    with m have "run argc argv p' = (code, pf)" by (simp add: main_def)
    with Inr names [OF Inr] show ?thesis by blast
  qed
  from a b c show ?thesis by blast
qed

theorem main_registers_then_runs_witness:
  "\<exists>pf. main sample_headers sample_generator 2 [''generator'', ''--help''] (fresh_process ()) =
      Inr (49, pf)"
proof -
  obtain p' where p': "register_all sample_headers (fresh_process ()) = Inr p'"
    using register_all_fresh [of sample_headers "()"] by blast
  from p' have "map t_name (reg_types p') = type_names register_all_decls"
     and "map fn_name (reg_functions p') = function_names register_all_decls"
    unfolding register_all_def
    by (simp_all add: run_decls_Inr(1,2) declared_types_names declared_functions_names
        fresh_process_def)
  then have "length (map t_name (reg_types p')) = 8" "length (map fn_name (reg_functions p')) = 37"
    by (simp_all only: register_all_type_names register_all_function_names) simp_all
  then have "sample_generator 2 [''generator'', ''--help''] p' = (49, p')"
    by (simp add: sample_generator_def)
  moreover have "main sample_headers sample_generator 2 [''generator'', ''--help'']
      (fresh_process ()) = Inr (sample_generator 2 [''generator'', ''--help''] p')"
    using main_registers_then_runs [of sample_headers "fresh_process ()" sample_generator 2
      "[''generator'', ''--help'']"] p'
    by blast
  ultimately show ?thesis by simp
qed

text \<open>
  C3. Whenever \<^verbatim>\<open>register_all\<close> completes, from any state of the process, each of the
  four handle types \<^verbatim>\<open>pmp::Vertex\<close>, \<^verbatim>\<open>pmp::Face\<close>, \<^verbatim>\<open>pmp::Edge\<close> and
  \<^verbatim>\<open>pmp::Halfedge\<close> was registered with a default constructor strictly before any
  method was: at the moment the run reaches a statement that registers a method,
  whatever the method returns, the registry already holds the handle type, with
  exactly its default constructor, while the class of the method is not registered
  yet; and the handle type is still there, unchanged, when the run ends. So this holds
  for \<^verbatim>\<open>add_vertex\<close>, \<^verbatim>\<open>add_triangle\<close>, \<^verbatim>\<open>add_quad\<close> and any other method that
  returns a handle.
\<close>

theorem handle_types_registered_before_methods:
  assumes "register_all h p = Inr p'" and "t \<in> set handle_types"
    and "j < length register_all_decls"
    and "register_all_decls ! j = ROSETTA_REGISTER_CLASS c ms"
    and "m \<in> set ms" and "is_method m"
  shows "\<exists>q. run_decls h (take j register_all_decls) p = Inr q \<and>
           run_decls h (drop j register_all_decls) q = Inr p' \<and>
           lookup_type q (natural_name t) =
             Some \<lparr>t_name = natural_name t, t_constructors = [[]], t_fields = [],
                   t_methods = []\<rparr> \<and>
           lookup_type q (natural_name c) = None \<and>
           lookup_type p' (natural_name t) =
             Some \<lparr>t_name = natural_name t, t_constructors = [[]], t_fields = [],
                   t_methods = []\<rparr>"
proof -
  let ?d = "ROSETTA_REGISTER_CLASS t [Constructor []]"
  let ?td = "\<lparr>t_name = natural_name t, t_constructors = [[]], t_fields = [], t_methods = []\<rparr>"
  have full: "run_decls h register_all_decls p = Inr p'"
    using assms(1) by (simp add: register_all_def)
  then obtain q where q: "run_decls h (take j register_all_decls) p = Inr q"
    "run_decls h (drop j register_all_decls) q = Inr p'"
    using run_decls_split by blast
  have j4: "4 \<le> j"
    using assms(3-6) by (rule methods_after_handles)
  have dt: "declared_type h ?d = Some ?td"
    by (simp add: new_type_def)
  have mem: "?d \<in> set handle_type_decls"
    using assms(2) by (rule handle_decl_member)
  then have "?d \<in> set (take j register_all_decls)"
    using handle_decls_in_prefix [OF j4] by blast
  from run_decls_lookup_type [OF q(1) this dt]
  have before: "lookup_type q (natural_name t) = Some ?td" by simp
  from mem have "?d \<in> set register_all_decls"
    by (simp add: register_all_decls_def)
  from run_decls_lookup_type [OF full this dt]
  have after: "lookup_type p' (natural_name t) = Some ?td" by simp
  have "drop j register_all_decls = ROSETTA_REGISTER_CLASS c ms # drop (Suc j) register_all_decls"
    using assms(3,4) by (simp add: Cons_nth_drop_Suc [symmetric])
  with q(2) obtain q' where "exec_decl h (ROSETTA_REGISTER_CLASS c ms) q = Inr q'"
    by (auto split: sum.splits)
  from exec_decl_Inr(5) [OF this] have "lookup_type q (natural_name c) = None"
    by (simp add: lookup_type_None_iff)
  with q before after show ?thesis by blast
qed

theorem handle_types_registered_before_methods_witness:
  "\<exists>p' q. register_all sample_headers (fresh_process ()) = Inr p' \<and>
     register_all_decls ! 7 = ROSETTA_REGISTER_CLASS (pmp ''SurfaceMesh'') surface_mesh_members \<and>
     Method ''add_vertex'' (pmp_member ''SurfaceMesh'' ''add_vertex'') \<in> set surface_mesh_members \<and>
     run_decls sample_headers (take 7 register_all_decls) (fresh_process ()) = Inr q \<and>
     run_decls sample_headers (drop 7 register_all_decls) q = Inr p' \<and>
     lookup_type q ''Vertex'' =
       Some \<lparr>t_name = ''Vertex'', t_constructors = [[]], t_fields = [], t_methods = []\<rparr> \<and>
     lookup_type q ''SurfaceMesh'' = None \<and>
     lookup_type p' ''Vertex'' =
       Some \<lparr>t_name = ''Vertex'', t_constructors = [[]], t_fields = [], t_methods = []\<rparr>"
proof -
  obtain p' where p': "register_all sample_headers (fresh_process ()) = Inr p'"
    using register_all_fresh [of sample_headers "()"] by blast
  have t: "pmp ''Vertex'' \<in> set handle_types"
    by (simp add: handle_types_def)
  have len: "7 < length register_all_decls"
    by (simp add: decls_defs)
  have d7: "register_all_decls ! 7 = ROSETTA_REGISTER_CLASS (pmp ''SurfaceMesh'') surface_mesh_members"
    by (simp add: register_all_decls_def handle_type_decls_def io_flags_decls_def
        core_type_decls_def nth_append)
  have m: "Method ''add_vertex'' (pmp_member ''SurfaceMesh'' ''add_vertex'') \<in> set surface_mesh_members"
    by (simp add: surface_mesh_members_def)
  have im: "is_method (Method ''add_vertex'' (pmp_member ''SurfaceMesh'' ''add_vertex''))"
    by simp
  from handle_types_registered_before_methods [OF p' t len d7 m im] p' d7 m
  show ?thesis by auto
qed

text \<open>
  C4. \<^verbatim>\<open>register_all\<close> registers exactly two overloads of \<^verbatim>\<open>pmp::triangulate\<close>:
  after it has run in a fresh process, a lookup of \<^verbatim>\<open>triangulate\<close> returns exactly one
  descriptor, with one parameter (the mesh), a lookup of \<^verbatim>\<open>triangulate_face\<close> returns
  exactly one descriptor, with two parameters (the mesh and a face), and these two are
  the only registered functions whose target is \<^verbatim>\<open>pmp::triangulate\<close>.
\<close>

theorem triangulate_overloads:
  "\<exists>p'. register_all h (fresh_process l) = Inr p' \<and>
     lookup_function p' ''triangulate'' =
       [\<lparr>fn_name = ''triangulate'',
         fn_sig = \<lparr>sig_ret = ''void'', sig_params = [''pmp::SurfaceMesh &'']\<rparr>,
         fn_target = pmp ''triangulate''\<rparr>] \<and>
     lookup_function p' ''triangulate_face'' =
       [\<lparr>fn_name = ''triangulate_face'',
         fn_sig = \<lparr>sig_ret = ''void'', sig_params = [''pmp::SurfaceMesh &'', ''pmp::Face'']\<rparr>,
         fn_target = pmp ''triangulate''\<rparr>] \<and>
     map (\<lambda>d. length (sig_params (fn_sig d))) (lookup_function p' ''triangulate'') = [1] \<and>
     map (\<lambda>d. length (sig_params (fn_sig d))) (lookup_function p' ''triangulate_face'') = [2] \<and>
     map fn_name (filter (\<lambda>d. fn_target d = pmp ''triangulate'') (reg_functions p')) =
       [''triangulate'', ''triangulate_face'']"
proof -
  obtain p' where p': "register_all h (fresh_process l) = Inr p'"
    using register_all_fresh [of h l] by blast
  then have r: "run_decls h register_all_decls (fresh_process l) = Inr p'"
    by (simp add: register_all_def)
  have d1: "ROSETTA_REGISTER_OVERLOADED_FUNCTION (pmp ''triangulate'')
      \<lparr>sig_ret = ''void'', sig_params = [''pmp::SurfaceMesh &'']\<rparr> \<in> set register_all_decls"
    by (simp add: register_all_decls_def overloaded_decls_def)
  have d2: "ROSETTA_REGISTER_OVERLOADED_FUNCTION_AS (pmp ''triangulate'') ''triangulate_face''
      \<lparr>sig_ret = ''void'', sig_params = [''pmp::SurfaceMesh &'', ''pmp::Face'']\<rparr>
      \<in> set register_all_decls"
    by (simp add: register_all_decls_def overloaded_decls_def)
  have l1: "lookup_function p' ''triangulate'' =
       [\<lparr>fn_name = ''triangulate'',
         fn_sig = \<lparr>sig_ret = ''void'', sig_params = [''pmp::SurfaceMesh &'']\<rparr>,
         fn_target = pmp ''triangulate''\<rparr>]"
    using run_decls_lookup_function [OF r d1] by simp
  have l2: "lookup_function p' ''triangulate_face'' =
       [\<lparr>fn_name = ''triangulate_face'',
         fn_sig = \<lparr>sig_ret = ''void'', sig_params = [''pmp::SurfaceMesh &'', ''pmp::Face'']\<rparr>,
         fn_target = pmp ''triangulate''\<rparr>]"
    using run_decls_lookup_function [OF r d2] by simp
  have l3: "map fn_name (filter (\<lambda>d. fn_target d = pmp ''triangulate'') (reg_functions p')) =
       [''triangulate'', ''triangulate_face'']"
    by (simp add: register_all_fresh_functions [OF p'] triangulate_targets)
  show ?thesis
    using p' l3 by (intro exI [of _ p']) (simp add: l1 l2)
qed

text \<open>
  C5. The method \<^verbatim>\<open>vertices\<close> of \<^verbatim>\<open>pmp::SurfaceMesh\<close> is registered in the const
  lambda form with the declared return type \<^verbatim>\<open>std::vector<pmp::Scalar>\<close>. For every
  mesh, a call of the stored lambda returns a vector of that type holding the three
  coordinates of the position of each vertex, in the order of the vertex range; its
  length is three times \<^verbatim>\<open>n_vertices\<close>.
\<close>

theorem vertices_lambda_flat:
  "LambdaMethodConst ''std::vector<pmp::Scalar>'' ''vertices'' lambda_vertices
     \<in> set surface_mesh_members \<and>
   ROSETTA_REGISTER_CLASS (pmp ''SurfaceMesh'') surface_mesh_members \<in> set register_all_decls \<and>
   call_lambda lambda_vertices m =
     (ScalarVector (concat (map (\<lambda>v. [x0 (position m v), x1 (position m v), x2 (position m v)])
        (vertex_range m))), m) \<and>
   value_type (fst (call_lambda lambda_vertices m)) = ''std::vector<pmp::Scalar>'' \<and>
   length (vertices_lambda m) = 3 * n_vertices m"
proof -
  have "length (vertices_lambda m) = 3 * n_vertices m"
    by (simp add: vertices_lambda_def vertices_loop_eq n_vertices_def length_concat_const)
  moreover have "LambdaMethodConst ''std::vector<pmp::Scalar>'' ''vertices'' lambda_vertices
      \<in> set surface_mesh_members"
    by (simp add: surface_mesh_members_def)
  moreover have "ROSETTA_REGISTER_CLASS (pmp ''SurfaceMesh'') surface_mesh_members
      \<in> set register_all_decls"
    by (simp add: register_all_decls_def core_type_decls_def)
  ultimately show ?thesis
    by (simp add: vertices_lambda_def vertices_loop_eq)
qed

text \<open>
  C6. \<^verbatim>\<open>copy_mesh\<close> returns the copy-constructed mesh and leaves its source as it was;
  \<^verbatim>\<open>load_mesh\<close> is the library's \<^verbatim>\<open>read\<close> on the same mesh and path. Both are
  registered with the plain form \<^verbatim>\<open>ROSETTA_REGISTER_FUNCTION\<close>, each is found under its
  own name as exactly one descriptor with the signature of its definition, and they are
  the only two registered functions that are not functions of the wrapped library.
\<close>

theorem adapters_registered:
  "copy_mesh copy_constructor src = (copy_constructor src, src) \<and>
   load_mesh pmp_read mesh filepath = pmp_read mesh filepath \<and>
   ROSETTA_REGISTER_FUNCTION (global ''load_mesh'') \<in> set register_all_decls \<and>
   ROSETTA_REGISTER_FUNCTION (global ''copy_mesh'') \<in> set register_all_decls \<and>
   map fn_target (filter (\<lambda>d. scope (fn_target d) \<noteq> [''pmp''])
      (declared_functions h register_all_decls)) = [global ''load_mesh'', global ''copy_mesh''] \<and>
   (\<exists>p'. register_all h (fresh_process l) = Inr p' \<and>
      lookup_function p' ''copy_mesh'' =
        [\<lparr>fn_name = ''copy_mesh'',
          fn_sig = \<lparr>sig_ret = ''pmp::SurfaceMesh'', sig_params = [''const pmp::SurfaceMesh &'']\<rparr>,
          fn_target = global ''copy_mesh''\<rparr>] \<and>
      lookup_function p' ''load_mesh'' =
        [\<lparr>fn_name = ''load_mesh'',
          fn_sig = \<lparr>sig_ret = ''void'',
                    sig_params = [''pmp::SurfaceMesh &'', ''const std::filesystem::path &'']\<rparr>,
          fn_target = global ''load_mesh''\<rparr>])"
proof -
  obtain p' where p': "register_all h (fresh_process l) = Inr p'"
    using register_all_fresh [of h l] by blast
  then have r: "run_decls h register_all_decls (fresh_process l) = Inr p'"
    by (simp add: register_all_def)
  have d1: "ROSETTA_REGISTER_FUNCTION (global ''load_mesh'') \<in> set register_all_decls"
    by (simp add: register_all_decls_def io_decls_def)
  have d2: "ROSETTA_REGISTER_FUNCTION (global ''copy_mesh'') \<in> set register_all_decls"
    by (simp add: register_all_decls_def io_decls_def)
  have l1: "lookup_function p' ''load_mesh'' =
        [\<lparr>fn_name = ''load_mesh'',
          fn_sig = \<lparr>sig_ret = ''void'',
                    sig_params = [''pmp::SurfaceMesh &'', ''const std::filesystem::path &'']\<rparr>,
          fn_target = global ''load_mesh''\<rparr>]"
    using run_decls_lookup_function [OF r d1] by (simp add: deduced_sig_def)
  have l2: "lookup_function p' ''copy_mesh'' =
        [\<lparr>fn_name = ''copy_mesh'',
          fn_sig = \<lparr>sig_ret = ''pmp::SurfaceMesh'', sig_params = [''const pmp::SurfaceMesh &'']\<rparr>,
          fn_target = global ''copy_mesh''\<rparr>]"
    using run_decls_lookup_function [OF r d2] by (simp add: deduced_sig_def)
  have "\<exists>p'. register_all h (fresh_process l) = Inr p' \<and>
      lookup_function p' ''copy_mesh'' =
        [\<lparr>fn_name = ''copy_mesh'',
          fn_sig = \<lparr>sig_ret = ''pmp::SurfaceMesh'', sig_params = [''const pmp::SurfaceMesh &'']\<rparr>,
          fn_target = global ''copy_mesh''\<rparr>] \<and>
      lookup_function p' ''load_mesh'' =
        [\<lparr>fn_name = ''load_mesh'',
          fn_sig = \<lparr>sig_ret = ''void'',
                    sig_params = [''pmp::SurfaceMesh &'', ''const std::filesystem::path &'']\<rparr>,
          fn_target = global ''load_mesh''\<rparr>]"
    using p' l1 l2 by blast
  with d1 d2 show ?thesis
    by (simp add: copy_mesh_def load_mesh_def adapter_targets)
qed

text \<open>
  C7. Whenever \<^verbatim>\<open>register_all\<close> completes, from any state of the process, it has added
  to the registries exactly the descriptors written out above, and each of them is
  found again by its name: a lookup of a type name in the type registry returns the
  descriptor with that name, those constructors, those fields with their types and
  those methods with their signatures, and a lookup of a function name in the function
  registry returns exactly one descriptor, with that name, signature and target.
\<close>

theorem register_all_lookup_roundtrip:
  assumes "register_all h p = Inr p'"
  shows "reg_types p' = reg_types p @ written_types h \<and>
         reg_functions p' = reg_functions p @ written_functions h \<and>
         (\<forall>td \<in> set (written_types h). lookup_type p' (t_name td) = Some td) \<and>
         (\<forall>fd \<in> set (written_functions h). lookup_function p' (fn_name fd) = [fd])"
proof -
  have r: "run_decls h register_all_decls p = Inr p'"
    using assms by (simp add: register_all_def)
  have "reg_types p' = reg_types p @ written_types h"
    using run_decls_Inr(1) [OF r] by (simp only: declared_types_written)
  moreover have "reg_functions p' = reg_functions p @ written_functions h"
    using run_decls_Inr(2) [OF r] by (simp only: declared_functions_written)
  moreover have "lookup_type p' (t_name td) = Some td" if "td \<in> set (written_types h)" for td
    using run_decls_lookup_declared_type [OF r, of td] that
    by (simp only: declared_types_written)
  moreover have "lookup_function p' (fn_name fd) = [fd]"
    if "fd \<in> set (written_functions h)" for fd
    using run_decls_lookup_declared_function [OF r, of fd] that
    by (simp only: declared_functions_written)
  ultimately show ?thesis by blast
qed

theorem register_all_lookup_roundtrip_witness:
  "\<exists>p'. register_all sample_headers (fresh_process ()) = Inr p' \<and>
     lookup_type p' ''IOFlags'' =
       Some \<lparr>t_name = ''IOFlags'', t_constructors = [[]],
          t_fields =
            [\<lparr>f_name = ''use_binary'', f_owner = ''IOFlags'', f_type = ''bool'',
              f_accessor = MemberPtr (pmp_member ''IOFlags'' ''use_binary'')\<rparr>,
             \<lparr>f_name = ''use_vertex_normals'', f_owner = ''IOFlags'', f_type = ''bool'',
              f_accessor = MemberPtr (pmp_member ''IOFlags'' ''use_vertex_normals'')\<rparr>,
             \<lparr>f_name = ''use_vertex_colors'', f_owner = ''IOFlags'', f_type = ''bool'',
              f_accessor = MemberPtr (pmp_member ''IOFlags'' ''use_vertex_colors'')\<rparr>,
             \<lparr>f_name = ''use_vertex_texcoords'', f_owner = ''IOFlags'', f_type = ''bool'',
              f_accessor = MemberPtr (pmp_member ''IOFlags'' ''use_vertex_texcoords'')\<rparr>,
             \<lparr>f_name = ''use_face_normals'', f_owner = ''IOFlags'', f_type = ''bool'',
              f_accessor = MemberPtr (pmp_member ''IOFlags'' ''use_face_normals'')\<rparr>,
             \<lparr>f_name = ''use_face_colors'', f_owner = ''IOFlags'', f_type = ''bool'',
              f_accessor = MemberPtr (pmp_member ''IOFlags'' ''use_face_colors'')\<rparr>],
          t_methods = []\<rparr> \<and>
     lookup_type p' ''BoundingBox'' =
       Some \<lparr>t_name = ''BoundingBox'', t_constructors = [[]], t_fields = [],
          t_methods =
            [\<lparr>m_name = ''min'', m_sig = \<lparr>sig_ret = ''size_t'', sig_params = []\<rparr>,
              m_const = True, m_accessor = MemberPtr (pmp_member ''BoundingBox'' ''min'')\<rparr>,
             \<lparr>m_name = ''max'', m_sig = \<lparr>sig_ret = ''size_t'', sig_params = []\<rparr>,
              m_const = True, m_accessor = MemberPtr (pmp_member ''BoundingBox'' ''max'')\<rparr>,
             \<lparr>m_name = ''center'', m_sig = \<lparr>sig_ret = ''size_t'', sig_params = []\<rparr>,
              m_const = True, m_accessor = MemberPtr (pmp_member ''BoundingBox'' ''center'')\<rparr>,
             \<lparr>m_name = ''size'', m_sig = \<lparr>sig_ret = ''size_t'', sig_params = []\<rparr>,
              m_const = True, m_accessor = MemberPtr (pmp_member ''BoundingBox'' ''size'')\<rparr>,
             \<lparr>m_name = ''is_empty'', m_sig = \<lparr>sig_ret = ''size_t'', sig_params = []\<rparr>,
              m_const = True, m_accessor = MemberPtr (pmp_member ''BoundingBox'' ''is_empty'')\<rparr>]\<rparr> \<and>
     lookup_function p' ''copy_mesh'' =
       [\<lparr>fn_name = ''copy_mesh'',
          fn_sig = \<lparr>sig_ret = ''pmp::SurfaceMesh'', sig_params = [''const pmp::SurfaceMesh &'']\<rparr>,
          fn_target = global ''copy_mesh''\<rparr>] \<and>
     lookup_function p' ''decimate'' =
       [\<lparr>fn_name = ''decimate'',
          fn_sig = \<lparr>sig_ret = ''void'', sig_params = [''pmp::SurfaceMesh &'']\<rparr>,
          fn_target = pmp ''decimate''\<rparr>]"
proof -
  let ?io = "\<lparr>t_name = ''IOFlags'', t_constructors = [[]],
          t_fields =
            [\<lparr>f_name = ''use_binary'', f_owner = ''IOFlags'', f_type = ''bool'',
              f_accessor = MemberPtr (pmp_member ''IOFlags'' ''use_binary'')\<rparr>,
             \<lparr>f_name = ''use_vertex_normals'', f_owner = ''IOFlags'', f_type = ''bool'',
              f_accessor = MemberPtr (pmp_member ''IOFlags'' ''use_vertex_normals'')\<rparr>,
             \<lparr>f_name = ''use_vertex_colors'', f_owner = ''IOFlags'', f_type = ''bool'',
              f_accessor = MemberPtr (pmp_member ''IOFlags'' ''use_vertex_colors'')\<rparr>,
             \<lparr>f_name = ''use_vertex_texcoords'', f_owner = ''IOFlags'', f_type = ''bool'',
              f_accessor = MemberPtr (pmp_member ''IOFlags'' ''use_vertex_texcoords'')\<rparr>,
             \<lparr>f_name = ''use_face_normals'', f_owner = ''IOFlags'', f_type = ''bool'',
              f_accessor = MemberPtr (pmp_member ''IOFlags'' ''use_face_normals'')\<rparr>,
             \<lparr>f_name = ''use_face_colors'', f_owner = ''IOFlags'', f_type = ''bool'',
              f_accessor = MemberPtr (pmp_member ''IOFlags'' ''use_face_colors'')\<rparr>],
          t_methods = []\<rparr>"
  let ?bb = "\<lparr>t_name = ''BoundingBox'', t_constructors = [[]], t_fields = [],
          t_methods =
            [\<lparr>m_name = ''min'', m_sig = \<lparr>sig_ret = ''size_t'', sig_params = []\<rparr>,
              m_const = True, m_accessor = MemberPtr (pmp_member ''BoundingBox'' ''min'')\<rparr>,
             \<lparr>m_name = ''max'', m_sig = \<lparr>sig_ret = ''size_t'', sig_params = []\<rparr>,
              m_const = True, m_accessor = MemberPtr (pmp_member ''BoundingBox'' ''max'')\<rparr>,
             \<lparr>m_name = ''center'', m_sig = \<lparr>sig_ret = ''size_t'', sig_params = []\<rparr>,
              m_const = True, m_accessor = MemberPtr (pmp_member ''BoundingBox'' ''center'')\<rparr>,
             \<lparr>m_name = ''size'', m_sig = \<lparr>sig_ret = ''size_t'', sig_params = []\<rparr>,
              m_const = True, m_accessor = MemberPtr (pmp_member ''BoundingBox'' ''size'')\<rparr>,
             \<lparr>m_name = ''is_empty'', m_sig = \<lparr>sig_ret = ''size_t'', sig_params = []\<rparr>,
              m_const = True, m_accessor = MemberPtr (pmp_member ''BoundingBox'' ''is_empty'')\<rparr>]\<rparr>"
  let ?cm = "\<lparr>fn_name = ''copy_mesh'',
          fn_sig = \<lparr>sig_ret = ''pmp::SurfaceMesh'', sig_params = [''const pmp::SurfaceMesh &'']\<rparr>,
          fn_target = global ''copy_mesh''\<rparr>"
  let ?dc = "\<lparr>fn_name = ''decimate'',
          fn_sig = \<lparr>sig_ret = ''void'', sig_params = [''pmp::SurfaceMesh &'']\<rparr>,
          fn_target = pmp ''decimate''\<rparr>"
  obtain p' where p': "register_all sample_headers (fresh_process ()) = Inr p'"
    using register_all_fresh [of sample_headers "()"] by blast
  from register_all_lookup_roundtrip [OF p']
  have ty: "\<forall>td \<in> set (written_types sample_headers). lookup_type p' (t_name td) = Some td"
    and fu: "\<forall>fd \<in> set (written_functions sample_headers).
               lookup_function p' (fn_name fd) = [fd]"
    by blast+
  have "?io \<in> set (written_types sample_headers)"
    by (simp add: written_types_def sample_headers_def)
  with ty have "lookup_type p' (t_name ?io) = Some ?io" by (rule bspec)
  then have a: "lookup_type p' ''IOFlags'' = Some ?io" by simp
  have "?bb \<in> set (written_types sample_headers)"
    by (simp add: written_types_def sample_headers_def)
  with ty have "lookup_type p' (t_name ?bb) = Some ?bb" by (rule bspec)
  then have b: "lookup_type p' ''BoundingBox'' = Some ?bb" by simp
  have "?cm \<in> set (written_functions sample_headers)"
    by (simp add: written_functions_def sample_headers_def)
  with fu have "lookup_function p' (fn_name ?cm) = [?cm]" by (rule bspec)
  then have c: "lookup_function p' ''copy_mesh'' = [?cm]" by simp
  have "?dc \<in> set (written_functions sample_headers)"
    by (simp add: written_functions_def sample_headers_def)
  with fu have "lookup_function p' (fn_name ?dc) = [?dc]" by (rule bspec)
  then have d: "lookup_function p' ''decimate'' = [?dc]" by simp
  from p' a b c d show ?thesis by blast
qed

text \<open>
  C8. A run of \<^verbatim>\<open>register_all\<close> executes no accessor and no stored lambda, and neither
  reads nor changes the state of the wrapped library: a completed run leaves the
  record of executed accessors and the library state as they were, and the outcome of
  a run (the error, or the registry contents) is the same whatever these two are.
\<close>

theorem registration_executes_nothing:
  "(\<forall>p'. register_all h p = Inr p' \<longrightarrow> executed p' = executed p \<and> library p' = library p) \<and>
   register_all h (p\<lparr>executed := ex, library := l\<rparr>) =
     map_sum (map_prod id (\<lambda>q. q\<lparr>executed := ex, library := l\<rparr>))
     (\<lambda>q. q\<lparr>executed := ex, library := l\<rparr>) (register_all h p)"
proof -
  have "executed p' = executed p \<and> library p' = library p" if "register_all h p = Inr p'" for p'
    using that run_decls_Inr(3,4) [of h register_all_decls p p']
    by (simp add: register_all_def)
  moreover have "register_all h (p\<lparr>executed := ex, library := l\<rparr>) =
     map_sum (map_prod id (\<lambda>q. q\<lparr>executed := ex, library := l\<rparr>))
     (\<lambda>q. q\<lparr>executed := ex, library := l\<rparr>) (register_all h p)"
    unfolding register_all_def by (rule run_decls_frame)
  ultimately show ?thesis by blast
qed

theorem registration_executes_nothing_witness:
  "\<exists>p'. register_all sample_headers
          ((fresh_process [sample_mesh])\<lparr>executed := [Closure lambda_vertices]\<rparr>) = Inr p' \<and>
        executed p' = [Closure lambda_vertices] \<and> library p' = [sample_mesh]"
proof -
  let ?p = "(fresh_process [sample_mesh])\<lparr>executed := [Closure lambda_vertices]\<rparr>"
  obtain p' where p': "register_all sample_headers ?p = Inr p'"
    using register_all_succeeds [of ?p sample_headers] by (auto simp: fresh_process_def)
  with registration_executes_nothing [of sample_headers ?p]
  have "executed p' = executed ?p \<and> library p' = library ?p" by blast
  with p' show ?thesis by (simp add: fresh_process_def)
qed

text \<open>
  C9. The method \<^verbatim>\<open>indices\<close> is registered in the mutable form \<^verbatim>\<open>lambda_method\<close>
  (\<^verbatim>\<open>vertices\<close> in the const form), so its descriptor is not const; yet for every mesh
  a call of the stored lambda, directly or through the descriptor, leaves the mesh as
  it was.
\<close>

theorem indices_lambda_reads_only:
  "LambdaMethod ''std::vector<pmp::IndexType>'' ''indices'' lambda_indices
     \<in> set surface_mesh_members \<and>
   LambdaMethodConst ''std::vector<pmp::Scalar>'' ''vertices'' lambda_vertices
     \<in> set surface_mesh_members \<and>
   snd (call_lambda lambda_indices m) = m \<and>
   (\<exists>td. declared_type h (ROSETTA_REGISTER_CLASS (pmp ''SurfaceMesh'') surface_mesh_members) = Some td \<and>
     filter (\<lambda>x. m_name x = ''indices'') (t_methods td) =
       [\<lparr>m_name = ''indices'',
         m_sig = \<lparr>sig_ret = ''std::vector<pmp::IndexType>'', sig_params = []\<rparr>,
         m_const = False, m_accessor = Closure lambda_indices\<rparr>]) \<and>
   fst (snd (invoke_method native
     \<lparr>m_name = ''indices'',
      m_sig = \<lparr>sig_ret = ''std::vector<pmp::IndexType>'', sig_params = []\<rparr>,
      m_const = False, m_accessor = Closure lambda_indices\<rparr> m p)) = m"
proof -
  have "filter (\<lambda>x. m_name x = ''indices'')
      (t_methods (foldl (\<lambda>d m. add_member h m d) (new_type ''SurfaceMesh'') surface_mesh_members)) =
       [\<lparr>m_name = ''indices'',
         m_sig = \<lparr>sig_ret = ''std::vector<pmp::IndexType>'', sig_params = []\<rparr>,
         m_const = False, m_accessor = Closure lambda_indices\<rparr>]"
    by (simp add: surface_mesh_members_def new_type_def)
  then show ?thesis
    by (simp add: surface_mesh_members_def invoke_method_def)
qed

text \<open>
  C10. For every mesh the lambda registered as \<^verbatim>\<open>indices\<close> returns, face by face in
  the order of the face range and within a face in the order of its vertices, the index
  of each vertex of the face: one entry per pair of a face and a vertex of it, for
  faces of any size. For a triangle mesh the length is three times \<^verbatim>\<open>n_faces\<close>.
\<close>

theorem indices_lambda_per_face:
  "call_lambda lambda_indices m =
     (IndexVector (concat (map (\<lambda>f. map idx (vertices_around m f)) (face_range m))), m) \<and>
   length (indices_lambda m) = sum_list (map (\<lambda>f. length (vertices_around m f)) (face_range m)) \<and>
   (is_triangle_mesh m \<longrightarrow> length (indices_lambda m) = 3 * n_faces m)"
proof -
  have eq: "indices_lambda m = concat (map (\<lambda>f. map idx (vertices_around m f)) (face_range m))"
    by (simp add: indices_lambda_def indices_loop_eq)
  have len: "length (indices_lambda m) =
      sum_list (map (\<lambda>f. length (vertices_around m f)) (face_range m))"
    by (simp add: eq length_concat comp_def)
  have "length (indices_lambda m) = 3 * n_faces m" if "is_triangle_mesh m"
  proof -
    from that have "\<And>f. f \<in> set (face_range m) \<Longrightarrow> length (map idx (vertices_around m f)) = 3"
      by (simp add: is_triangle_mesh_def list_all_iff)
    then show ?thesis
      unfolding eq n_faces_def by (rule length_concat_const)
  qed
  with eq len show ?thesis by simp
qed

theorem indices_lambda_per_face_witness:
  "is_triangle_mesh sample_mesh \<and> indices_lambda sample_mesh = [0, 1, 2, 0, 2, 3] \<and>
   length (indices_lambda sample_mesh) = 3 * n_faces sample_mesh"
proof -
  have t: "is_triangle_mesh sample_mesh"
    by (simp add: is_triangle_mesh_def sample_mesh_def)
  have v: "indices_lambda sample_mesh = [0, 1, 2, 0, 2, 3]"
    by (simp add: indices_lambda_def sample_mesh_def)
  from t indices_lambda_per_face [of sample_mesh]
  have "length (indices_lambda sample_mesh) = 3 * n_faces sample_mesh"
    by blast
  with t v show ?thesis by blast
qed

lemma indices_lambda_polygon_example:
  "\<not> is_triangle_mesh sample_polygon_mesh \<and>
   indices_lambda sample_polygon_mesh = [0, 1, 2, 3, 0, 3, 4]"
  by (simp add: is_triangle_mesh_def indices_lambda_def sample_polygon_mesh_def)

end
